theory Spec2Isabelle
  imports Main "HOL-Library.AList"
begin

section \<open>update-static-assets: the StaticAssetUpdater\<close>

text \<open>
  A shallow embedding of \<^verbatim>\<open>StaticAssetUpdater\<close> (TypeScript). JavaScript strings are
  modelled as \<^typ>\<open>string\<close>, one \<^typ>\<open>char\<close> per code unit; \<^verbatim>\<open>string | undefined\<close> and
  \<^verbatim>\<open>string | null\<close> are \<^typ>\<open>string option\<close>. Logging through \<^verbatim>\<open>core.info\<close> and
  \<^verbatim>\<open>core.debug\<close> has no effect on any value computed and is left out.
\<close>

subsection \<open>JavaScript string primitives\<close>

text \<open>\<^verbatim>\<open>s.split(sep)\<close> for a one-character separator: never the empty array.\<close>

fun split_str :: "char \<Rightarrow> string \<Rightarrow> string list" where
  "split_str sep [] = [[]]"
| "split_str sep (c # cs) =
     (if c = sep then [] # split_str sep cs
      else (case split_str sep cs of
              [] \<Rightarrow> [[c]]
            | x # xs \<Rightarrow> (c # x) # xs))"

text \<open>\<^verbatim>\<open>parts.join(sep)\<close>.\<close>

fun join :: "string \<Rightarrow> string list \<Rightarrow> string" where
  "join sep [] = []"
| "join sep [x] = x"
| "join sep (x # y # ys) = x @ sep @ join sep (y # ys)"

text \<open>\<^verbatim>\<open>xs[i]\<close>: \<^verbatim>\<open>undefined\<close> out of range.\<close>

definition at :: "'a list \<Rightarrow> nat \<Rightarrow> 'a option" where
  "at xs i = (if i < length xs then Some (xs ! i) else None)"

text \<open>
  JavaScript numbers, as far as \<^verbatim>\<open>parseInt\<close> produces them: \<^verbatim>\<open>NaN\<close> or an integer.
  The integer is exact, as a double is up to \<open>2^53\<close>; longer digit strings, which a
  double rounds, are outside the model.
\<close>

datatype jsnumber = NaN | Num int

text \<open>\<^verbatim>\<open>a > b\<close> on numbers: false when either side is \<^verbatim>\<open>NaN\<close>.\<close>

fun gt :: "jsnumber \<Rightarrow> jsnumber \<Rightarrow> bool" where
  "gt (Num a) (Num b) = (b < a)"
| "gt _ _ = False"

definition isWhiteSpace :: "char \<Rightarrow> bool" where
  "isWhiteSpace c = (of_char c \<in> {9, 10, 11, 12, 13, 32 :: nat})"

definition isDigit :: "char \<Rightarrow> bool" where
  "isDigit c = (48 \<le> (of_char c :: nat) \<and> (of_char c :: nat) \<le> 57)"

definition digitsValue :: "string \<Rightarrow> int" where
  "digitsValue ds = foldl (\<lambda>acc d. 10 * acc + (int (of_char d) - 48)) 0 ds"

text \<open>
  \<^verbatim>\<open>parseInt(s, 10)\<close>: leading white space is skipped (the ASCII white space here), one
  sign is read, then the longest run of decimal digits; no digit gives \<^verbatim>\<open>NaN\<close>, as does
  \<^verbatim>\<open>undefined\<close> (which is first converted to the string "undefined").
\<close>

definition parseInt :: "string option \<Rightarrow> jsnumber" where
  "parseInt v =
     (case v of
        None \<Rightarrow> NaN
      | Some s \<Rightarrow>
          (let t = dropWhile isWhiteSpace s;
               negative = (case t of [] \<Rightarrow> False | c # _ \<Rightarrow> c = CHR ''-'');
               u = (case t of [] \<Rightarrow> []
                    | c # r \<Rightarrow> if c = CHR ''-'' \<or> c = CHR ''+'' then r else t);
               ds = takeWhile isDigit u
           in if ds = [] then NaN
              else Num (if negative then - digitsValue ds else digitsValue ds)))"

subsection \<open>The commit message\<close>

text \<open>The constant \<^verbatim>\<open>updateKind\<close> of \<^verbatim>\<open>generateCommitMessage\<close>.\<close>

definition updateKind :: "string \<Rightarrow> string \<Rightarrow> string" where
  "updateKind currentAssetVersion latestAssetVersion =
     (let currentVersion = split_str CHR ''.'' currentAssetVersion;
          latestVersion = split_str CHR ''.'' latestAssetVersion
      in if gt (parseInt (at latestVersion 0)) (parseInt (at currentVersion 0)) then ''major''
         else if gt (parseInt (at latestVersion 1)) (parseInt (at currentVersion 1)) then ''minor''
         else ''patch'')"

definition messageLines :: "string \<Rightarrow> string \<Rightarrow> string \<Rightarrow> string list" where
  "messageLines assetName currentAssetVersion latestAssetVersion =
     [ ''Update '' @ assetName,
       '''',
       ''Updates '' @ assetName @ '' to version '' @ latestAssetVersion @ ''.'',
       '''',
       ''---'',
       ''updated-dependencies:'',
       ''- dependency-name: '' @ assetName,
       ''  dependency-type: direct:production'',
       ''  update-type: version-update:semver-'' @ updateKind currentAssetVersion latestAssetVersion,
       ''...'',
       '''',
       '''' ]"

definition generateCommitMessage :: "string \<Rightarrow> string \<Rightarrow> string \<Rightarrow> string" where
  "generateCommitMessage assetName currentAssetVersion latestAssetVersion =
     join [CHR 0x0A] (messageLines assetName currentAssetVersion latestAssetVersion)"

text \<open>
  The major and the minor component of a dotted version, as \<^verbatim>\<open>generateCommitMessage\<close>
  reads them.
\<close>

definition majorOf :: "string \<Rightarrow> jsnumber" where
  "majorOf v = parseInt (at (split_str CHR ''.'' v) 0)"

definition minorOf :: "string \<Rightarrow> jsnumber" where
  "minorOf v = parseInt (at (split_str CHR ''.'' v) 1)"

definition patchOf :: "string \<Rightarrow> jsnumber" where
  "patchOf v = parseInt (at (split_str CHR ''.'' v) 2)"

text \<open>
  A downgrade: the latest version precedes the current one, by the major component, or
  with equal majors by the minor one, or with both equal by the third one.
\<close>

definition isDowngrade :: "string \<Rightarrow> string \<Rightarrow> bool" where
  "isDowngrade currentAssetVersion latestAssetVersion =
     (gt (majorOf currentAssetVersion) (majorOf latestAssetVersion) \<or>
      (majorOf currentAssetVersion = majorOf latestAssetVersion \<and>
       (gt (minorOf currentAssetVersion) (minorOf latestAssetVersion) \<or>
        (minorOf currentAssetVersion = minorOf latestAssetVersion \<and>
         gt (patchOf currentAssetVersion) (patchOf latestAssetVersion)))))"

text \<open>
  The default commit message as the specification lays it out (section 6), for a given
  update type: nine lines, the last followed by two blank ones.
\<close>

definition commitMessageFormat :: "string \<Rightarrow> string \<Rightarrow> string \<Rightarrow> string" where
  "commitMessageFormat assetName latestAssetVersion kind =
     ''Update '' @ assetName @ [CHR 0x0A] @
     [CHR 0x0A] @
     ''Updates '' @ assetName @ '' to version '' @ latestAssetVersion @ ''.'' @ [CHR 0x0A] @
     [CHR 0x0A] @
     ''---'' @ [CHR 0x0A] @
     ''updated-dependencies:'' @ [CHR 0x0A] @
     ''- dependency-name: '' @ assetName @ [CHR 0x0A] @
     ''  dependency-type: direct:production'' @ [CHR 0x0A] @
     ''  update-type: version-update:semver-'' @ kind @ [CHR 0x0A] @
     ''...'' @ [CHR 0x0A] @
     [CHR 0x0A]"

text \<open>
  The rule as the specification words it: the update type is the first of (major, minor)
  in which the old and the new version differ, else patch.
\<close>

definition firstDifferingKind :: "string \<Rightarrow> string \<Rightarrow> string" where
  "firstDifferingKind currentAssetVersion latestAssetVersion =
     (if majorOf latestAssetVersion \<noteq> majorOf currentAssetVersion then ''major''
      else if minorOf latestAssetVersion \<noteq> minorOf currentAssetVersion then ''minor''
      else ''patch'')"

subsection \<open>The data model\<close>

text \<open>
  Modelled from the spec: \<^verbatim>\<open>CdnProvider.ts\<close> is not among the sources. The enumeration has
  the members cdnjs and jsdelivr (sections 2 and 9 of the specification); each is taken to
  be the string of its own name, so a provider is truthy and a template literal renders
  it as that name.
\<close>

datatype CdnProvider = cdnjs | jsdelivr

fun providerName :: "CdnProvider \<Rightarrow> string" where
  "providerName cdnjs = ''cdnjs''"
| "providerName jsdelivr = ''jsdelivr''"

record Asset =
  cdn :: CdnProvider
  name :: string

text \<open>
  The object \<^verbatim>\<open>updatedAsset\<close> that \<^verbatim>\<open>tryUpdateAssets\<close> hands to \<^verbatim>\<open>applyAssetUpdate\<close> and to
  \<^verbatim>\<open>createPullRequest\<close>. The source types it \<^verbatim>\<open>AssetVersion\<close>, but its \<^verbatim>\<open>version\<close> is read
  from \<^verbatim>\<open>assetLatestVersions[key]\<close> and is \<^verbatim>\<open>undefined\<close> where that map has no entry.
\<close>

record UpdatedAsset = Asset +
  version :: "string option"

text \<open>
  Modelled from the spec: \<^verbatim>\<open>AssetUpdate.ts\<close> and \<^verbatim>\<open>UpdateResult.ts\<close> are not among the sources.
  An \<^verbatim>\<open>AssetUpdate\<close> has the fields that \<^verbatim>\<open>tryUpdateAssets\<close> writes (section 3 of the
  specification); an \<^verbatim>\<open>UpdateResult\<close> is the list of them.
\<close>

record AssetUpdate = Asset +
  pullRequestNumber :: int
  pullRequestUrl :: string
  version :: "string option"

record PullRequest =
  number :: int
  url :: string

text \<open>\<^verbatim>\<open>CdnFile\<close>: the \<^verbatim>\<open>integrity\<close> is read with \<^verbatim>\<open>??\<close>, so it may be missing.\<close>

record CdnFile =
  url :: string
  fileName :: string
  integrity :: "string option"

record AssetVersion = Asset +
  version :: string

record AssetVersionItem = AssetVersion +
  url :: string
  integrity :: "string option"
  fileName :: string

text \<open>
  Modelled from the spec: \<^verbatim>\<open>UpdateOptions.ts\<close> is not among the sources. The fields are
  those of the configuration surface (section 6 of the specification) that the code
  reads; \<^verbatim>\<open>repo\<close> is read with \<^verbatim>\<open>??\<close> and may be missing, the other strings are empty when
  not configured.
\<close>

record UpdateOptions =
  accessToken :: string
  apiUrl :: string
  branchPrefix :: string
  commitMessage :: string
  dryRun :: bool
  labels :: string
  repo :: "string option"
  repoPath :: string
  runId :: string
  serverUrl :: string
  userEmail :: string
  userName :: string

subsection \<open>The asset extractor\<close>

datatype error =
  InvalidURL string
| ReadFailed string
| GitFailed "string list"
| GitStdErr string
| UndefinedVersion
| RequestFailed
| TokenRequired

text \<open>\<^verbatim>\<open>s.startsWith(prefix)\<close>.\<close>

definition startsWith :: "string \<Rightarrow> string \<Rightarrow> bool" where
  "startsWith s prefix = (take (length prefix) s = prefix)"

text \<open>
  \<^verbatim>\<open>new URL(url).pathname\<close> is the platform's URL parser: the parameter \<open>pathname\<close>
  stands for it, \<^const>\<open>None\<close> where the constructor throws.
\<close>

definition extractAsset ::
  "(string \<Rightarrow> string option) \<Rightarrow> CdnProvider \<Rightarrow> string \<Rightarrow> string option
     \<Rightarrow> error + AssetVersionItem option" where
  "extractAsset pathname provider url' integrity' =
     (case pathname url' of
        None \<Rightarrow> Inl (InvalidURL url')
      | Some p \<Rightarrow>
          (let uriPath = drop 1 p;
               segments = split_str CHR ''/'' uriPath
           in case provider of
                cdnjs \<Rightarrow>
                  if 4 \<le> length segments then
                    Inr (Some \<lparr>cdn = provider, name = segments ! 2, version = segments ! 3,
                               url = url', integrity = integrity',
                               fileName = join ''/'' (drop 4 segments)\<rparr>)
                  else Inr None
              | jsdelivr \<Rightarrow>
                  if 2 \<le> length segments then
                    (let fileName' = ''/'' @ join ''/'' (drop 2 segments);
                         segments' = split_str CHR ''@'' (segments ! 1)
                     in if length segments' = 2 then
                          Inr (Some \<lparr>cdn = provider, name = segments' ! 0, version = segments' ! 1,
                                     url = url', integrity = integrity', fileName = fileName'\<rparr>)
                        else Inr None)
                  else Inr None))"

text \<open>The static table \<^verbatim>\<open>cdnMap\<close>, in the order of its keys.\<close>

definition cdnMap :: "(string \<times> CdnProvider) list" where
  "cdnMap = [(''https://cdnjs.cloudflare.com'', cdnjs), (''https://cdn.jsdelivr.net'', jsdelivr)]"

definition tryGetAsset ::
  "(string \<Rightarrow> string option) \<Rightarrow> string \<Rightarrow> string option \<Rightarrow> error + AssetVersionItem option" where
  "tryGetAsset pathname url' integrity' =
     (case find (\<lambda>(prefix, provider). startsWith url' prefix) cdnMap of
        None \<Rightarrow> Inr None
      | Some (prefix, provider) \<Rightarrow> extractAsset pathname provider url' integrity')"

subsection \<open>The version reconciler\<close>

text \<open>
  \<^verbatim>\<open>fileAssetMap\<close> is a JavaScript object used as a map from file names to the items found
  in the file. Its keys are the paths that \<^verbatim>\<open>glob\<close> returns, none of them an integer
  index, so \<^verbatim>\<open>for ... in\<close> visits them in the order of their first insertion: the model is
  an association list, updated in place.
\<close>

type_synonym FileAssetMap = "(string \<times> AssetVersionItem list) list"

text \<open>
  The first loop of \<^verbatim>\<open>tryUpdateAssets\<close>. The paths (\<^verbatim>\<open>findFiles\<close>, a \<^verbatim>\<open>glob\<close> search) and the
  items of each file (\<^verbatim>\<open>findAssets\<close>, which parses the file with JSDOM) are parameters.
\<close>

definition buildFileAssetMap :: "(string \<Rightarrow> AssetVersionItem list) \<Rightarrow> string list \<Rightarrow> FileAssetMap" where
  "buildFileAssetMap findAssets paths =
     foldl (\<lambda>fileAssetMap fileName.
              let assets = findAssets fileName
              in if 0 < length assets then AList.update fileName assets fileAssetMap
                 else fileAssetMap)
       [] paths"

definition getKey :: "'a Asset_scheme \<Rightarrow> string" where
  "getKey asset = providerName (cdn asset) @ ''-'' @ name asset"

datatype CdnClient = CdnjsClient | JSDelivrClient

text \<open>\<^verbatim>\<open>getClient\<close>: its \<^verbatim>\<open>default\<close> branch is taken by no member of the enumeration.\<close>

fun getClient :: "CdnProvider \<Rightarrow> CdnClient option" where
  "getClient cdnjs = Some CdnjsClient"
| "getClient jsdelivr = Some JSDelivrClient"

text \<open>Truthiness of a \<^verbatim>\<open>string | null | undefined\<close>.\<close>

definition truthy :: "string option \<Rightarrow> bool" where
  "truthy v = (case v of None \<Rightarrow> False | Some s \<Rightarrow> s \<noteq> [])"

text \<open>"Find the unique assets present in the files."\<close>

definition addAsset :: "Asset list \<Rightarrow> AssetVersionItem \<Rightarrow> Asset list" where
  "addAsset assets asset =
     (if \<not> list_ex (\<lambda>a. cdn a = cdn asset \<and> name a = name asset) assets
      then assets @ [\<lparr>cdn = cdn asset, name = name asset\<rparr>]
      else assets)"

definition findUniqueAssets :: "FileAssetMap \<Rightarrow> Asset list" where
  "findUniqueAssets fileAssetMap =
     foldl (\<lambda>assets (fileName, fileAssets). foldl addAsset assets fileAssets) [] fileAssetMap"

text \<open>"Find the versions of each asset."\<close>

definition addVersion ::
  "(string \<rightharpoonup> AssetVersion list) \<Rightarrow> AssetVersionItem \<Rightarrow> (string \<rightharpoonup> AssetVersion list)" where
  "addVersion assetVersions asset =
     (let key = getKey asset;
          versions = (case assetVersions key of None \<Rightarrow> [] | Some vs \<Rightarrow> vs);
          versions' =
            (if \<not> list_ex (\<lambda>a. version a = version asset) versions
             then versions @ [\<lparr>cdn = cdn asset, name = name asset, version = version asset\<rparr>]
             else versions)
      in assetVersions(key \<mapsto> versions'))"

definition findAssetVersions :: "FileAssetMap \<Rightarrow> (string \<rightharpoonup> AssetVersion list)" where
  "findAssetVersions fileAssetMap =
     foldl (\<lambda>assetVersions (fileName, fileAssets). foldl addVersion assetVersions fileAssets)
       Map.empty fileAssetMap"

text \<open>
  "Find the latest version of each asset." The clients are outside the sources:
  \<open>getLatestVersion\<close> stands for \<^verbatim>\<open>client.getLatestVersion(name)\<close>, which answers a version
  or \<^verbatim>\<open>null\<close>.
\<close>

definition resolveLatest ::
  "(CdnClient \<Rightarrow> string \<Rightarrow> string option) \<Rightarrow> (string \<rightharpoonup> string) \<Rightarrow> Asset \<Rightarrow> (string \<rightharpoonup> string)" where
  "resolveLatest getLatestVersion assetLatestVersions asset =
     (case getClient (cdn asset) of
        None \<Rightarrow> assetLatestVersions
      | Some client \<Rightarrow>
          (let version' = getLatestVersion client (name asset)
           in if truthy version' then assetLatestVersions(getKey asset := version')
              else assetLatestVersions))"

definition findLatestVersions ::
  "(CdnClient \<Rightarrow> string \<Rightarrow> string option) \<Rightarrow> Asset list \<Rightarrow> (string \<rightharpoonup> string)" where
  "findLatestVersions getLatestVersion assets =
     foldl (resolveLatest getLatestVersion) Map.empty assets"

text \<open>
  "Are there any assets using a version that isn't the latest one?" The latest version
  read from the map is \<^verbatim>\<open>undefined\<close> where the lookup stored none, and \<^verbatim>\<open>!==\<close> compares a
  version string with it.
\<close>

definition markStale ::
  "(string \<rightharpoonup> string) \<Rightarrow> (string \<rightharpoonup> AssetVersion list) \<Rightarrow> Asset list \<Rightarrow> Asset \<Rightarrow> Asset list" where
  "markStale assetLatestVersions assetVersions assetsToUpdate asset =
     (let key = getKey asset;
          latestVersion = assetLatestVersions key
      in case assetVersions key of
           None \<Rightarrow> assetsToUpdate
         | Some versions \<Rightarrow>
             foldl (\<lambda>acc v.
                      if Some (version v) \<noteq> latestVersion then
                        (if \<not> list_ex (\<lambda>a. cdn a = cdn asset \<and> name a = name asset) acc
                         then acc @ [\<lparr>cdn = cdn asset, name = name asset\<rparr>]
                         else acc)
                      else acc)
               assetsToUpdate versions)"

definition findAssetsToUpdate ::
  "(string \<rightharpoonup> string) \<Rightarrow> (string \<rightharpoonup> AssetVersion list) \<Rightarrow> Asset list \<Rightarrow> Asset list" where
  "findAssetsToUpdate assetLatestVersions assetVersions assets =
     foldl (markStale assetLatestVersions assetVersions) [] assets"

text \<open>The map of latest versions and the stale set of one run, from the scanned files.\<close>

definition latestVersionsOf ::
  "(CdnClient \<Rightarrow> string \<Rightarrow> string option) \<Rightarrow> FileAssetMap \<Rightarrow> (string \<rightharpoonup> string)" where
  "latestVersionsOf getLatestVersion fileAssetMap =
     findLatestVersions getLatestVersion (findUniqueAssets fileAssetMap)"

definition assetsToUpdateOf ::
  "(CdnClient \<Rightarrow> string \<Rightarrow> string option) \<Rightarrow> FileAssetMap \<Rightarrow> Asset list" where
  "assetsToUpdateOf getLatestVersion fileAssetMap =
     findAssetsToUpdate (latestVersionsOf getLatestVersion fileAssetMap)
       (findAssetVersions fileAssetMap) (findUniqueAssets fileAssetMap)"

subsection \<open>The world outside the process\<close>

text \<open>
  The calls to the pull-request service, as \<^verbatim>\<open>octokit.rest.pulls.create\<close> and
  \<^verbatim>\<open>octokit.rest.issues.addLabels\<close> receive them: owner, repo, title, head, base, body,
  \<^verbatim>\<open>maintainer_can_modify\<close> and \<^verbatim>\<open>draft\<close>; owner, repo, issue number and labels.
\<close>

datatype ApiCall =
  PullsCreate "string option" "string option" string string string string bool bool
| AddLabels "string option" "string option" int "string list"

text \<open>
  What the run can change: the files of the checkout, and, recorded in the order they
  are made, the invocations of \<^verbatim>\<open>git\<close> and the calls to the pull-request service.
\<close>

record World =
  files :: "string \<rightharpoonup> string"
  gitCalls :: "string list list"
  apiCalls :: "ApiCall list"

text \<open>An awaited call returns a value or throws; the world it leaves behind stays.\<close>

datatype 'a outcome = Returned 'a | Threw error

definition result :: "'a \<Rightarrow> World \<Rightarrow> 'a outcome \<times> World" where
  "result x w = (Returned x, w)"

definition andThen ::
  "(World \<Rightarrow> 'a outcome \<times> World) \<Rightarrow> ('a \<Rightarrow> World \<Rightarrow> 'b outcome \<times> World)
     \<Rightarrow> World \<Rightarrow> 'b outcome \<times> World" where
  "andThen m k w = (case m w of (Returned x, w') \<Rightarrow> k x w' | (Threw e, w') \<Rightarrow> (Threw e, w'))"

text \<open>
  A run of \<^verbatim>\<open>exec.exec('git', args, options)\<close>: the process could not be started, or it
  exited with a code, having written to its standard output and its standard error.
\<close>

datatype ExecResult = NotStarted | Exited int string string

text \<open>
  The \<^verbatim>\<open>git\<close> executable is a parameter: from the arguments and the world (which holds
  every earlier invocation) it gives the result of the run and the files it leaves.
\<close>

type_synonym Git = "string list \<Rightarrow> World \<Rightarrow> ExecResult \<times> (string \<rightharpoonup> string)"

text \<open>\<^verbatim>\<open>s.trimEnd()\<close>, for the ASCII white space.\<close>

definition trimEnd :: "string \<Rightarrow> string" where
  "trimEnd s = rev (dropWhile isWhiteSpace (rev s))"

definition execGit :: "Git \<Rightarrow> string list \<Rightarrow> bool \<Rightarrow> World \<Rightarrow> string outcome \<times> World" where
  "execGit git args ignoreErrors w =
     (case git args w of
        (r, files') \<Rightarrow>
          (let w' = w\<lparr>files := files', gitCalls := gitCalls w @ [args]\<rparr>
           in case r of
                NotStarted \<Rightarrow> (Threw (GitFailed args), w')
              | Exited code commandOutput commandError \<Rightarrow>
                  if code \<noteq> 0 \<and> \<not> ignoreErrors then (Threw (GitFailed args), w')
                  else if commandError \<noteq> [] \<and> \<not> ignoreErrors then (Threw (GitStdErr commandError), w')
                  else (Returned (trimEnd commandOutput), w')))"

definition getCurrentBranch :: "Git \<Rightarrow> World \<Rightarrow> string outcome \<times> World" where
  "getCurrentBranch git = execGit git [''rev-parse'', ''--abbrev-ref'', ''HEAD''] False"

subsection \<open>The update applier\<close>

text \<open>
  The first occurrence of a pattern in a string: what stands before it and what stands
  after it.
\<close>

fun findFirst :: "string \<Rightarrow> string \<Rightarrow> (string \<times> string) option" where
  "findFirst pat [] = (if pat = [] then Some ([], []) else None)"
| "findFirst pat (c # cs) =
     (if startsWith (c # cs) pat then Some ([], drop (length pat) (c # cs))
      else (case findFirst pat cs of
              None \<Rightarrow> None
            | Some (pre, post) \<Rightarrow> Some (c # pre, post)))"

text \<open>\<^verbatim>\<open>s.includes(t)\<close>.\<close>

definition str_includes :: "string \<Rightarrow> string \<Rightarrow> bool" where
  "str_includes s t = (findFirst t s \<noteq> None)"

text \<open>
  The replacement text of \<^verbatim>\<open>String.prototype.replace\<close> for a string pattern, which has no
  captures: \<^verbatim>\<open>$$\<close> is a dollar sign, \<^verbatim>\<open>$&\<close> the matched text, \<^verbatim>\<open>$\<close> with a backquote the
  text before the match, \<^verbatim>\<open>$\<close> with a quote the text after it; any other \<^verbatim>\<open>$\<close> stands for
  itself.
\<close>

fun getSubstitution :: "string \<Rightarrow> string \<Rightarrow> string \<Rightarrow> string \<Rightarrow> string" where
  "getSubstitution matched pre post [] = []"
| "getSubstitution matched pre post [c] = [c]"
| "getSubstitution matched pre post (c # d # r) =
     (if c = CHR ''$'' \<and> d = CHR ''$'' then CHR ''$'' # getSubstitution matched pre post r
      else if c = CHR ''$'' \<and> d = CHR ''&'' then matched @ getSubstitution matched pre post r
      else if c = CHR ''$'' \<and> d = CHR 0x60 then pre @ getSubstitution matched pre post r
      else if c = CHR ''$'' \<and> d = CHR 0x27 then post @ getSubstitution matched pre post r
      else c # getSubstitution matched pre post (d # r))"

text \<open>\<^verbatim>\<open>s.replace(pattern, replacement)\<close> with a string pattern: the first occurrence only.\<close>

definition replaceFirst :: "string \<Rightarrow> string \<Rightarrow> string \<Rightarrow> string" where
  "replaceFirst s pat replacement =
     (case findFirst pat s of
        None \<Rightarrow> s
      | Some (pre, post) \<Rightarrow> pre @ getSubstitution pat pre post replacement @ post)"

text \<open>\<^verbatim>\<open>a < b\<close> on strings: code unit by code unit, a proper prefix being smaller.\<close>

fun str_lt :: "string \<Rightarrow> string \<Rightarrow> bool" where
  "str_lt [] [] = False"
| "str_lt [] (y # ys) = True"
| "str_lt (x # xs) [] = False"
| "str_lt (x # xs) (y # ys) =
     (if (of_char x :: nat) < of_char y then True
      else if (of_char y :: nat) < of_char x then False
      else str_lt xs ys)"

text \<open>The constant \<^verbatim>\<open>assetsToUpdate\<close> of \<^verbatim>\<open>applyAssetUpdate\<close>: the filter on the items of a file.\<close>

definition staleItems :: "UpdatedAsset \<Rightarrow> AssetVersionItem list \<Rightarrow> AssetVersionItem list" where
  "staleItems assetUpdate items =
     filter (\<lambda>a. cdn a = cdn assetUpdate \<and> name a = name assetUpdate \<and>
                 Some (version a) \<noteq> UpdatedAsset.version assetUpdate) items"

text \<open>
  The body of the loop over the stale items of one file, on the variables \<^verbatim>\<open>content\<close>,
  \<^verbatim>\<open>dirty\<close> and \<^verbatim>\<open>lowestVersion\<close>.
\<close>

definition replaceAsset ::
  "CdnFile list \<Rightarrow> string \<times> bool \<times> string \<Rightarrow> AssetVersionItem \<Rightarrow> string \<times> bool \<times> string" where
  "replaceAsset cdnFiles vars assetToUpdate =
     (case vars of
        (content, dirty, lowestVersion) \<Rightarrow>
          (case find (\<lambda>a. CdnFile.fileName a = fileName assetToUpdate) cdnFiles of
             None \<Rightarrow> vars
           | Some latestAsset \<Rightarrow>
               if str_includes content (url assetToUpdate) then
                 (let content1 = replaceFirst content (url assetToUpdate) (CdnFile.url latestAsset);
                      content2 =
                        (case integrity assetToUpdate of
                           None \<Rightarrow> content1
                         | Some i \<Rightarrow>
                             if i \<noteq> [] then
                               replaceFirst content1 i
                                 (case CdnFile.integrity latestAsset of None \<Rightarrow> [] | Some j \<Rightarrow> j)
                             else content1)
                  in (content2, True,
                      if str_lt lowestVersion (version assetToUpdate) then version assetToUpdate
                      else lowestVersion))
               else vars))"

text \<open>
  "Apply the updates to the file system": the loop over the files, on the variables
  \<^verbatim>\<open>filesUpdated\<close> and \<^verbatim>\<open>lowestVersion\<close>. Reading a file that is not there throws.
\<close>

fun updateFiles ::
  "UpdatedAsset \<Rightarrow> CdnFile list \<Rightarrow> FileAssetMap \<Rightarrow> nat \<times> string \<Rightarrow> World
     \<Rightarrow> (nat \<times> string) outcome \<times> World" where
  "updateFiles assetUpdate cdnFiles [] vars w = (Returned vars, w)"
| "updateFiles assetUpdate cdnFiles ((file, items) # rest) (filesUpdated, lowestVersion) w =
     (case files w file of
        None \<Rightarrow> (Threw (ReadFailed file), w)
      | Some content \<Rightarrow>
          (case foldl (replaceAsset cdnFiles) (content, False, lowestVersion)
                  (staleItems assetUpdate items) of
             (content', dirty, lowestVersion') \<Rightarrow>
               if dirty then
                 updateFiles assetUpdate cdnFiles rest (filesUpdated + 1, lowestVersion')
                   (w\<lparr>files := (files w)(file \<mapsto> content')\<rparr>)
               else updateFiles assetUpdate cdnFiles rest (filesUpdated, lowestVersion') w))"

text \<open>A \<^verbatim>\<open>string | undefined\<close> inside a template literal.\<close>

definition render :: "string option \<Rightarrow> string" where
  "render v = (case v of None \<Rightarrow> ''undefined'' | Some s \<Rightarrow> s)"

text \<open>\<^verbatim>\<open>s.toLowerCase()\<close>, for the ASCII letters.\<close>

definition toLowerCase :: "string \<Rightarrow> string" where
  "toLowerCase s =
     map (\<lambda>c. if 65 \<le> (of_char c :: nat) \<and> (of_char c :: nat) \<le> 90
              then char_of (of_char c + 32 :: nat) else c) s"

definition branchName :: "UpdateOptions \<Rightarrow> UpdatedAsset \<Rightarrow> string" where
  "branchName opts assetUpdate =
     (let branchPrefix' = (if branchPrefix opts = [] then ''update-static-assets'' else branchPrefix opts)
      in toLowerCase (branchPrefix' @ ''/'' @ name assetUpdate @ ''/'' @
                      render (UpdatedAsset.version assetUpdate)))"

text \<open>
  The commit message of \<^verbatim>\<open>applyAssetUpdate\<close>: the configured one, or the generated one.
  Generating it splits the latest version, which throws a \<^verbatim>\<open>TypeError\<close> on \<^verbatim>\<open>undefined\<close>.
\<close>

definition chooseCommitMessage ::
  "UpdateOptions \<Rightarrow> UpdatedAsset \<Rightarrow> string \<Rightarrow> World \<Rightarrow> string outcome \<times> World" where
  "chooseCommitMessage opts assetUpdate lowestVersion w =
     (if commitMessage opts = [] then
        (case UpdatedAsset.version assetUpdate of
           None \<Rightarrow> (Threw UndefinedVersion, w)
         | Some latest \<Rightarrow> (Returned (generateCommitMessage (name assetUpdate) lowestVersion latest), w))
      else (Returned (commitMessage opts), w))"

text \<open>The optional configuration of the git identity and of the remote.\<close>

definition configureGit :: "Git \<Rightarrow> UpdateOptions \<Rightarrow> World \<Rightarrow> unit outcome \<times> World" where
  "configureGit git opts =
     andThen (if userName opts \<noteq> []
              then andThen (execGit git [''config'', ''user.name'', userName opts] False) (\<lambda>_. result ())
              else result ())
       (\<lambda>_. andThen (if userEmail opts \<noteq> []
                     then andThen (execGit git [''config'', ''user.email'', userEmail opts] False) (\<lambda>_. result ())
                     else result ())
       (\<lambda>_. if truthy (repo opts)
             then andThen (execGit git [''remote'', ''set-url'', ''origin'',
                                        serverUrl opts @ ''/'' @ render (repo opts) @ ''.git''] False)
                    (\<lambda>_. andThen (execGit git [''fetch'', ''origin''] True) (\<lambda>_. result ()))
             else result ()))"

text \<open>
  The git steps of \<^verbatim>\<open>applyAssetUpdate\<close>, once at least one file has been rewritten: the
  look-up of the remote branch, the new branch, the commit and the push.
\<close>

definition commitUpdate ::
  "Git \<Rightarrow> UpdateOptions \<Rightarrow> string \<Rightarrow> string \<Rightarrow> World \<Rightarrow> string option outcome \<times> World" where
  "commitUpdate git opts branch commitMessage' =
     andThen (execGit git [''rev-parse'', ''--verify'', ''--quiet'', ''remotes/origin/'' @ branch] True)
       (\<lambda>branchExists.
          if branchExists \<noteq> [] then result None
          else
            andThen (execGit git [''checkout'', ''-b'', branch] True)
              (\<lambda>_. andThen (execGit git [''add'', ''.''] False)
              (\<lambda>_. andThen (execGit git [''commit'', ''-m'', commitMessage'] False)
              (\<lambda>_. andThen (execGit git [''log'', ''--format='' @ [CHR 0x27] @ ''%H'' @ [CHR 0x27], ''-n'', ''1''] False)
              (\<lambda>sha1. andThen (if \<not> dryRun opts \<and> truthy (repo opts)
                               then andThen (execGit git [''push'', ''-u'', ''origin'', branch] True)
                                      (\<lambda>_. result ())
                               else result ())
              (\<lambda>_. result (Some branch)))))))"

definition applyAssetUpdate ::
  "Git \<Rightarrow> UpdateOptions \<Rightarrow> string \<Rightarrow> FileAssetMap \<Rightarrow> UpdatedAsset \<Rightarrow> CdnFile list
     \<Rightarrow> World \<Rightarrow> string option outcome \<times> World" where
  "applyAssetUpdate git opts base fileAssetMap assetUpdate cdnFiles =
     andThen (updateFiles assetUpdate cdnFiles fileAssetMap (0, ''0.0.0''))
       (\<lambda>(filesUpdated, lowestVersion).
          if filesUpdated < 1 then result None
          else
            andThen (chooseCommitMessage opts assetUpdate lowestVersion)
              (\<lambda>commitMessage'. andThen (configureGit git opts)
              (\<lambda>_. commitUpdate git opts (branchName opts assetUpdate) commitMessage')))"

subsection \<open>The pull request\<close>

text \<open>
  The pull-request service is a parameter: a call is answered with the number and the
  \<^verbatim>\<open>html_url\<close> of the pull request, or it is rejected. A call made is recorded in the world.
\<close>

type_synonym Api = "ApiCall \<Rightarrow> World \<Rightarrow> (int \<times> string) option"

definition request :: "Api \<Rightarrow> ApiCall \<Rightarrow> World \<Rightarrow> (int \<times> string) outcome \<times> World" where
  "request api call w =
     (let w' = w\<lparr>apiCalls := apiCalls w @ [call]\<rparr>
      in case api call w of
           None \<Rightarrow> (Threw RequestFailed, w')
         | Some response \<Rightarrow> (Returned response, w'))"

text \<open>The \<^verbatim>\<open>try\<close> around \<^verbatim>\<open>addLabels\<close>: a rejected call is logged and swallowed.\<close>

definition tryAddLabels :: "Api \<Rightarrow> ApiCall \<Rightarrow> World \<Rightarrow> unit outcome \<times> World" where
  "tryAddLabels api call w = (case request api call w of (r, w') \<Rightarrow> (Returned (), w'))"

text \<open>
  \<^verbatim>\<open>github.getOctokit(accessToken, options)\<close>, of the library \<^verbatim>\<open>@actions/github\<close>: it builds
  the client and makes no request. The options given hold a base URL and no \<^verbatim>\<open>auth\<close>, and
  in that case the library throws when the token is empty.
\<close>

definition getOctokit :: "string \<Rightarrow> World \<Rightarrow> unit outcome \<times> World" where
  "getOctokit token w = (if token = [] then (Threw TokenRequired, w) else (Returned (), w))"

text \<open>
  \<^verbatim>\<open>createPullRequest\<close>: the client is built before the dry-run flag is looked at.
\<close>

definition createPullRequest ::
  "Api \<Rightarrow> UpdateOptions \<Rightarrow> string \<Rightarrow> string \<Rightarrow> UpdatedAsset \<Rightarrow> World
     \<Rightarrow> PullRequest outcome \<times> World" where
  "createPullRequest api opts base head asset =
     (let title = ''Update '' @ name asset @ '' to '' @ render (UpdatedAsset.version asset);
          body = ''Updates '' @ name asset @ '' to version '' @ [CHR 0x60] @
                 render (UpdatedAsset.version asset) @ [CHR 0x60] @ ''.'' @
                 [CHR 0x0A, CHR 0x0A] @
                 ''This pull request was auto-generated by [GitHub Actions]('' @
                 serverUrl opts @ ''/'' @ render (repo opts) @ ''/actions/runs/'' @ runId opts @ '').'';
          split = split_str CHR ''/'' (case repo opts of None \<Rightarrow> ''/'' | Some r \<Rightarrow> r);
          owner = at split 0;
          repo' = at split 1;
          request' = PullsCreate owner repo' title head base body True False
      in andThen (getOctokit (accessToken opts))
           (\<lambda>octokit.
              if dryRun opts then result \<lparr>number = 0, url = ''''\<rparr>
              else
                andThen (request api request')
                  (\<lambda>(number', html_url).
                     andThen (if labels opts \<noteq> [] then
                                (let labelsToApply = split_str CHR '','' (labels opts)
                                 in if 0 < length labelsToApply
                                    then tryAddLabels api (AddLabels owner repo' number' labelsToApply)
                                    else result ())
                              else result ())
                       (\<lambda>_. result \<lparr>number = number', url = html_url\<rparr>))))"

subsection \<open>The run\<close>

text \<open>
  The body of the loop over the stale assets, on the variables \<^verbatim>\<open>baseBranch\<close> and
  \<^verbatim>\<open>result.updates\<close>. \<open>getFiles\<close> stands for \<^verbatim>\<open>client.getFiles(name, version)\<close>.
\<close>

text \<open>
  The caller's step before each update: "Reset to base branch before next loop", or the
  first reading of the current branch.
\<close>

definition selectBaseBranch :: "Git \<Rightarrow> string \<Rightarrow> World \<Rightarrow> string outcome \<times> World" where
  "selectBaseBranch git baseBranch =
     (if baseBranch \<noteq> []
      then andThen (execGit git [''checkout'', baseBranch] True) (\<lambda>_. result baseBranch)
      else getCurrentBranch git)"

definition updateAsset ::
  "(CdnClient \<Rightarrow> string \<Rightarrow> string option \<Rightarrow> CdnFile list) \<Rightarrow> Git \<Rightarrow> Api \<Rightarrow> UpdateOptions
     \<Rightarrow> FileAssetMap \<Rightarrow> (string \<rightharpoonup> string) \<Rightarrow> string \<times> AssetUpdate list \<Rightarrow> Asset
     \<Rightarrow> World \<Rightarrow> (string \<times> AssetUpdate list) outcome \<times> World" where
  "updateAsset getFiles git api opts fileAssetMap assetLatestVersions vars asset =
     (case vars of
        (baseBranch, updates) \<Rightarrow>
          (case getClient (cdn asset) of
             None \<Rightarrow> result (baseBranch, updates)
           | Some client \<Rightarrow>
               (let version' = assetLatestVersions (getKey asset);
                    latestFiles = getFiles client (name asset) version'
                in if 0 < length latestFiles then
                     (let updatedAsset = \<lparr>cdn = cdn asset, name = name asset,
                                           UpdatedAsset.version = version'\<rparr>
                      in andThen (selectBaseBranch git baseBranch)
                           (\<lambda>baseBranch'.
                              andThen (applyAssetUpdate git opts baseBranch' fileAssetMap
                                         updatedAsset latestFiles)
                                (\<lambda>headBranch.
                                   case headBranch of
                                     None \<Rightarrow> result (baseBranch', updates)
                                   | Some head \<Rightarrow>
                                       if head \<noteq> [] then
                                         andThen (createPullRequest api opts baseBranch' head updatedAsset)
                                           (\<lambda>pullRequest.
                                              result (baseBranch',
                                                updates @
                                                [\<lparr>cdn = cdn asset, name = name asset,
                                                  pullRequestNumber = number pullRequest,
                                                  pullRequestUrl = PullRequest.url pullRequest,
                                                  AssetUpdate.version = version'\<rparr>]))
                                       else result (baseBranch', updates))))
                   else result (baseBranch, updates))))"

fun updateAssets ::
  "(CdnClient \<Rightarrow> string \<Rightarrow> string option \<Rightarrow> CdnFile list) \<Rightarrow> Git \<Rightarrow> Api \<Rightarrow> UpdateOptions
     \<Rightarrow> FileAssetMap \<Rightarrow> (string \<rightharpoonup> string) \<Rightarrow> string \<times> AssetUpdate list \<Rightarrow> Asset list
     \<Rightarrow> World \<Rightarrow> (string \<times> AssetUpdate list) outcome \<times> World" where
  "updateAssets getFiles git api opts fileAssetMap assetLatestVersions vars [] = result vars"
| "updateAssets getFiles git api opts fileAssetMap assetLatestVersions vars (asset # assets) =
     andThen (updateAsset getFiles git api opts fileAssetMap assetLatestVersions vars asset)
       (\<lambda>vars'. updateAssets getFiles git api opts fileAssetMap assetLatestVersions vars' assets)"

text \<open>
  \<^verbatim>\<open>tryUpdateAssets\<close>, from the paths that \<^verbatim>\<open>findFiles\<close> returns and the items that
  \<^verbatim>\<open>findAssets\<close> reads from each file.
\<close>

definition tryUpdateAssets ::
  "string list \<Rightarrow> (string \<Rightarrow> AssetVersionItem list) \<Rightarrow> (CdnClient \<Rightarrow> string \<Rightarrow> string option)
     \<Rightarrow> (CdnClient \<Rightarrow> string \<Rightarrow> string option \<Rightarrow> CdnFile list) \<Rightarrow> Git \<Rightarrow> Api \<Rightarrow> UpdateOptions
     \<Rightarrow> World \<Rightarrow> AssetUpdate list outcome \<times> World" where
  "tryUpdateAssets paths findAssets getLatestVersion getFiles git api opts =
     (let fileAssetMap = buildFileAssetMap findAssets paths;
          assets = findUniqueAssets fileAssetMap;
          assetVersions = findAssetVersions fileAssetMap;
          assetLatestVersions = findLatestVersions getLatestVersion assets;
          assetsToUpdate = findAssetsToUpdate assetLatestVersions assetVersions assets
      in if 0 < length assetsToUpdate then
           andThen (updateAssets getFiles git api opts fileAssetMap assetLatestVersions
                      ([], []) assetsToUpdate)
             (\<lambda>(baseBranch, updates). result updates)
         else result [])"

subsection \<open>Observations on the world\<close>

text \<open>The \<^verbatim>\<open>git push\<close> invocations made so far.\<close>

definition pushes :: "World \<Rightarrow> string list list" where
  "pushes w = filter (\<lambda>args. take 1 args = [''push'']) (gitCalls w)"



subsection \<open>Data of the worked examples\<close>

text \<open>
  The item that the extractor yields for the script
  \<^verbatim>\<open>https://cdnjs.cloudflare.com/ajax/libs/<name>/<version>/<name>.min.js\<close>.
\<close>

definition cdnjsItem :: "string \<Rightarrow> string \<Rightarrow> string option \<Rightarrow> AssetVersionItem" where
  "cdnjsItem n v i =
     \<lparr>cdn = cdnjs, name = n, version = v,
      url = ''https://cdnjs.cloudflare.com/ajax/libs/'' @ n @ ''/'' @ v @ ''/'' @ n @ ''.min.js'',
      integrity = i, fileName = n @ ''.min.js''\<rparr>"

text \<open>A client that knows the package \<^verbatim>\<open>foo\<close>, at version 2.0.0, and no other.\<close>

definition fooLatest :: "CdnClient \<Rightarrow> string \<Rightarrow> string option" where
  "fooLatest client n = (if n = ''foo'' then Some ''2.0.0'' else None)"

text \<open>
  The pathnames of the URLs of the worked examples, as the URL parser gives them: a
  table to run the extractor on.
\<close>

definition examplePathname :: "string \<Rightarrow> string option" where
  "examplePathname = map_of
     [(''https://cdnjs.cloudflare.com/ajax/libs/foo'', ''/ajax/libs/foo''),
      (''https://cdnjs.cloudflare.com/ajax/libs/foo/1.0.0/foo.min.js'', ''/ajax/libs/foo/1.0.0/foo.min.js''),
      (''https://cdn.jsdelivr.net/npm/bootstrap/dist/a.js'', ''/npm/bootstrap/dist/a.js''),
      (''https://cdn.jsdelivr.net/npm/bootstrap@5.1.3/dist/a.js'', ''/npm/bootstrap@5.1.3/dist/a.js'')]"

text \<open>
  The end-to-end example of the specification: one file with the script of \<^verbatim>\<open>foo\<close> at
  1.0.0, the listing of \<^verbatim>\<open>foo\<close> at 2.0.0, a \<^verbatim>\<open>git\<close> that succeeds silently and leaves the
  files alone, and a pull-request service that answers with number 1.
\<close>

definition indexHtml :: string where
  "indexHtml = ''<script src=\"https://cdnjs.cloudflare.com/ajax/libs/foo/1.0.0/foo.min.js\" integrity=\"sha256-OLD\"></script>''"

definition fooFiles :: "CdnFile list" where
  "fooFiles = [\<lparr>CdnFile.url = ''https://cdnjs.cloudflare.com/ajax/libs/foo/2.0.0/foo.min.js'',
                CdnFile.fileName = ''foo.min.js'', CdnFile.integrity = Some ''sha256-NEW''\<rparr>]"

definition fooGetFiles :: "CdnClient \<Rightarrow> string \<Rightarrow> string option \<Rightarrow> CdnFile list" where
  "fooGetFiles client n v = (if n = ''foo'' \<and> v = Some ''2.0.0'' then fooFiles else [])"

definition quietGit :: Git where
  "quietGit args w = (Exited 0 [] [], files w)"

definition oneApi :: Api where
  "oneApi call w = Some (1, ''https://github.com/o/r/pull/1'')"

definition exampleOptions :: UpdateOptions where
  "exampleOptions =
     \<lparr>accessToken = ''token'', apiUrl = ''https://api.github.com'', branchPrefix = [],
      commitMessage = [], dryRun = False, labels = [], repo = Some ''o/r'', repoPath = ''.'',
      runId = ''1'', serverUrl = ''https://github.com'', userEmail = [], userName = []\<rparr>"

definition exampleWorld :: World where
  "exampleWorld = \<lparr>files = [''index.html'' \<mapsto> indexHtml], gitCalls = [], apiCalls = []\<rparr>"

text \<open>
  A file with two scripts of \<^verbatim>\<open>foo\<close>, at 1.5.0 and at 2.0.0, and the listing of \<^verbatim>\<open>foo\<close> at
  2.1.0.
\<close>

definition twoVersionsHtml :: string where
  "twoVersionsHtml =
     ''<script src=\"https://cdnjs.cloudflare.com/ajax/libs/foo/1.5.0/foo.min.js\"></script>'' @
     ''<script src=\"https://cdnjs.cloudflare.com/ajax/libs/foo/2.0.0/foo.min.js\"></script>''"

definition twoVersionsItems :: "AssetVersionItem list" where
  "twoVersionsItems = [cdnjsItem ''foo'' ''1.5.0'' None, cdnjsItem ''foo'' ''2.0.0'' None]"

definition foo210 :: UpdatedAsset where
  "foo210 = \<lparr>cdn = cdnjs, name = ''foo'', UpdatedAsset.version = Some ''2.1.0''\<rparr>"

definition foo210Files :: "CdnFile list" where
  "foo210Files = [\<lparr>CdnFile.url = ''https://cdnjs.cloudflare.com/ajax/libs/foo/2.1.0/foo.min.js'',
                   CdnFile.fileName = ''foo.min.js'', CdnFile.integrity = None\<rparr>]"

definition twoVersionsWorld :: World where
  "twoVersionsWorld = \<lparr>files = [''index.html'' \<mapsto> twoVersionsHtml], gitCalls = [], apiCalls = []\<rparr>"

definition foo200 :: UpdatedAsset where
  "foo200 = \<lparr>cdn = cdnjs, name = ''foo'', UpdatedAsset.version = Some ''2.0.0''\<rparr>"

text \<open>
  The scanned files of the end-to-end example, and a listing of \<^verbatim>\<open>foo\<close> at 2.0.0 in which
  the file has another name.
\<close>

definition indexMap :: FileAssetMap where
  "indexMap = [(''index.html'', [cdnjsItem ''foo'' ''1.0.0'' (Some ''sha256-OLD'')])]"

definition fooRenamedFiles :: "CdnFile list" where
  "fooRenamedFiles = [\<lparr>CdnFile.url = ''https://cdnjs.cloudflare.com/ajax/libs/foo/2.0.0/foo.bundle.js'',
                       CdnFile.fileName = ''foo.bundle.js'', CdnFile.integrity = None\<rparr>]"

definition fooRenamedGetFiles :: "CdnClient \<Rightarrow> string \<Rightarrow> string option \<Rightarrow> CdnFile list" where
  "fooRenamedGetFiles client n v = (if n = ''foo'' then fooRenamedFiles else [])"

definition fooLatestMap :: "string \<rightharpoonup> string" where
  "fooLatestMap = [''cdnjs-foo'' \<mapsto> ''2.0.0'']"

definition dryOptions :: UpdateOptions where
  "dryOptions = exampleOptions\<lparr>dryRun := True\<rparr>"

definition indexFindAssets :: "string \<Rightarrow> AssetVersionItem list" where
  "indexFindAssets path =
     (if path = ''index.html'' then [cdnjsItem ''foo'' ''1.0.0'' (Some ''sha256-OLD'')] else [])"

text \<open>A \<^verbatim>\<open>git\<close> that succeeds silently and names \<^verbatim>\<open>main\<close> as the current branch.\<close>

definition mainGit :: Git where
  "mainGit args w =
     (if args = [''rev-parse'', ''--abbrev-ref'', ''HEAD''] then Exited 0 (''main'' @ [CHR 0x0A]) []
      else Exited 0 [] [],
      files w)"

text \<open>
  A file with two scripts of \<^verbatim>\<open>foo\<close>, the first at 2.0.0 and the second at 1.0.0, whose
  integrity attributes are the same string (the file did not change between the two
  versions), and a listing of \<^verbatim>\<open>foo\<close> at 2.0.0 that gives the integrity as a SHA-512 hash.
\<close>

definition sharedHtml :: string where
  "sharedHtml =
     ''<script src=\"https://cdnjs.cloudflare.com/ajax/libs/foo/2.0.0/foo.min.js\" integrity=\"sha256-AAA\"></script>'' @
     ''<script src=\"https://cdnjs.cloudflare.com/ajax/libs/foo/1.0.0/foo.min.js\" integrity=\"sha256-AAA\"></script>''"

definition sharedItems :: "AssetVersionItem list" where
  "sharedItems = [cdnjsItem ''foo'' ''2.0.0'' (Some ''sha256-AAA''),
                  cdnjsItem ''foo'' ''1.0.0'' (Some ''sha256-AAA'')]"

definition foo512Files :: "CdnFile list" where
  "foo512Files = [\<lparr>CdnFile.url = ''https://cdnjs.cloudflare.com/ajax/libs/foo/2.0.0/foo.min.js'',
                   CdnFile.fileName = ''foo.min.js'', CdnFile.integrity = Some ''sha512-BBB''\<rparr>]"

definition sharedWorld :: World where
  "sharedWorld = \<lparr>files = [''index.html'' \<mapsto> sharedHtml], gitCalls = [], apiCalls = []\<rparr>"


section \<open>Theorems\<close>

subsection \<open>Splitting versions\<close>

lemma updateKind_cases:
  "updateKind cur lat =
     (if gt (majorOf lat) (majorOf cur) then ''major''
      else if gt (minorOf lat) (minorOf cur) then ''minor''
      else ''patch'')"
  by (simp add: updateKind_def majorOf_def minorOf_def Let_def)

lemma gt_irrefl: "\<not> gt a a"
  by (cases a) simp_all

lemma gt_neq: "gt a b \<Longrightarrow> a \<noteq> b"
  using gt_irrefl by blast

lemma gt_NaN: "a = NaN \<or> b = NaN \<Longrightarrow> \<not> gt a b"
  by (cases a; cases b) simp_all

text \<open>The generated message is the specified layout, with the update type the code chooses.\<close>

lemma generateCommitMessage_format:
  "generateCommitMessage assetName cur lat = commitMessageFormat assetName lat (updateKind cur lat)"
  by (simp add: generateCommitMessage_def messageLines_def commitMessageFormat_def)

lemma commitMessageFormat_kind:
  "commitMessageFormat assetName lat k = commitMessageFormat assetName lat k' \<longleftrightarrow> k = k'"
  by (simp add: commitMessageFormat_def)

subsection \<open>The update type of the commit message\<close>

text \<open>
  C4, as the specification states it, fails: from \<^verbatim>\<open>2.1.0\<close> to \<^verbatim>\<open>1.5.0\<close> the first differing
  component is the major one, yet the update type is read off the minor one (and from
  \<^verbatim>\<open>2.1.0\<close> to \<^verbatim>\<open>1.1.0\<close>, with the same major components, it is patch).
\<close>

theorem C4_first_differing_counterexample:
  "generateCommitMessage ''lib'' ''2.1.0'' ''1.5.0'' = commitMessageFormat ''lib'' ''1.5.0'' ''minor'' \<and>
   firstDifferingKind ''2.1.0'' ''1.5.0'' = ''major'' \<and>
   generateCommitMessage ''lib'' ''2.1.0'' ''1.5.0''
     \<noteq> commitMessageFormat ''lib'' ''1.5.0'' (firstDifferingKind ''2.1.0'' ''1.5.0'') \<and>
   generateCommitMessage ''lib'' ''2.1.0'' ''1.1.0'' = commitMessageFormat ''lib'' ''1.1.0'' ''patch''"
proof -
  have c: "updateKind ''2.1.0'' ''1.5.0'' = ''minor''" by code_simp
  have s: "firstDifferingKind ''2.1.0'' ''1.5.0'' = ''major''" by code_simp
  have p: "updateKind ''2.1.0'' ''1.1.0'' = ''patch''" by code_simp
  show ?thesis
    by (simp add: generateCommitMessage_format commitMessageFormat_kind c s p)
qed

text \<open>
  C4, amended: the update type is major when the latest version's major integer is
  strictly greater than the current one's, otherwise minor when its minor integer is
  strictly greater, otherwise patch. When no compared component goes down (the major
  goes up, or it stays and the minor goes up or stays) this is the first differing of
  (major, minor), else patch. The three examples of the specification hold.
\<close>

theorem C4_update_kind:
  "generateCommitMessage assetName current latest =
     commitMessageFormat assetName latest
       (if gt (majorOf latest) (majorOf current) then ''major''
        else if gt (minorOf latest) (minorOf current) then ''minor''
        else ''patch'') \<and>
   (gt (majorOf latest) (majorOf current) \<or>
    (majorOf latest = majorOf current \<and>
     (gt (minorOf latest) (minorOf current) \<or> minorOf latest = minorOf current))
    \<longrightarrow> generateCommitMessage assetName current latest =
          commitMessageFormat assetName latest (firstDifferingKind current latest)) \<and>
   generateCommitMessage ''lib'' ''1.2.3'' ''1.3.0'' = commitMessageFormat ''lib'' ''1.3.0'' ''minor'' \<and>
   generateCommitMessage ''lib'' ''1.2.3'' ''2.0.0'' = commitMessageFormat ''lib'' ''2.0.0'' ''major'' \<and>
   generateCommitMessage ''lib'' ''1.2.3'' ''1.2.4'' = commitMessageFormat ''lib'' ''1.2.4'' ''patch''"
proof (intro conjI impI)
  show "generateCommitMessage assetName current latest =
     commitMessageFormat assetName latest
       (if gt (majorOf latest) (majorOf current) then ''major''
        else if gt (minorOf latest) (minorOf current) then ''minor''
        else ''patch'')"
    by (simp only: generateCommitMessage_format updateKind_cases)
  assume "gt (majorOf latest) (majorOf current) \<or>
    (majorOf latest = majorOf current \<and>
     (gt (minorOf latest) (minorOf current) \<or> minorOf latest = minorOf current))"
  then have "updateKind current latest = firstDifferingKind current latest"
    by (auto simp: updateKind_cases firstDifferingKind_def gt_irrefl dest: gt_neq)
  then show "generateCommitMessage assetName current latest =
          commitMessageFormat assetName latest (firstDifferingKind current latest)"
    by (simp only: generateCommitMessage_format)
next
  have "updateKind ''1.2.3'' ''1.3.0'' = ''minor''" by code_simp
  then show "generateCommitMessage ''lib'' ''1.2.3'' ''1.3.0'' = commitMessageFormat ''lib'' ''1.3.0'' ''minor''"
    by (simp only: generateCommitMessage_format)
  have "updateKind ''1.2.3'' ''2.0.0'' = ''major''" by code_simp
  then show "generateCommitMessage ''lib'' ''1.2.3'' ''2.0.0'' = commitMessageFormat ''lib'' ''2.0.0'' ''major''"
    by (simp only: generateCommitMessage_format)
  have "updateKind ''1.2.3'' ''1.2.4'' = ''patch''" by code_simp
  then show "generateCommitMessage ''lib'' ''1.2.3'' ''1.2.4'' = commitMessageFormat ''lib'' ''1.2.4'' ''patch''"
    by (simp only: generateCommitMessage_format)
qed

theorem C4_update_kind_witness:
  "(gt (majorOf ''1.3.0'') (majorOf ''1.2.3'') \<or>
     (majorOf ''1.3.0'' = majorOf ''1.2.3'' \<and>
      (gt (minorOf ''1.3.0'') (minorOf ''1.2.3'') \<or> minorOf ''1.3.0'' = minorOf ''1.2.3''))) \<and>
   generateCommitMessage ''lib'' ''1.2.3'' ''1.3.0''
     = commitMessageFormat ''lib'' ''1.3.0'' (firstDifferingKind ''1.2.3'' ''1.3.0'') \<and>
   firstDifferingKind ''1.2.3'' ''1.3.0'' = ''minor''"
proof -
  have h: "majorOf ''1.3.0'' = majorOf ''1.2.3'' \<and> gt (minorOf ''1.3.0'') (minorOf ''1.2.3'')"
    by code_simp
  have k: "firstDifferingKind ''1.2.3'' ''1.3.0'' = ''minor''"
    by code_simp
  have d: "gt (majorOf ''1.3.0'') (majorOf ''1.2.3'') \<or>
     (majorOf ''1.3.0'' = majorOf ''1.2.3'' \<and>
      (gt (minorOf ''1.3.0'') (minorOf ''1.2.3'') \<or> minorOf ''1.3.0'' = minorOf ''1.2.3''))"
    using h by blast
  have e: "generateCommitMessage ''lib'' ''1.2.3'' ''1.3.0''
             = commitMessageFormat ''lib'' ''1.3.0'' (firstDifferingKind ''1.2.3'' ''1.3.0'')"
    using C4_update_kind [of "''lib''" "''1.2.3''" "''1.3.0''"] d by blast
  show ?thesis
    using d e k by blast
qed

lemma gt_asym: "gt a b \<Longrightarrow> \<not> gt b a"
  by (cases a; cases b) simp_all

lemma downgrade_not_major:
  "isDowngrade cur lat \<Longrightarrow> \<not> gt (majorOf lat) (majorOf cur)"
  by (auto simp: isDowngrade_def gt_irrefl dest: gt_asym)

text \<open>
  C10, as stated, fails for downgrades: from \<^verbatim>\<open>2.1.0\<close> to \<^verbatim>\<open>1.5.0\<close> the latest version is
  the lower one, and the update type is minor, not patch, because the second component
  is greater.
\<close>

theorem C10_downgrade_counterexample:
  "isDowngrade ''2.1.0'' ''1.5.0'' \<and>
   generateCommitMessage ''lib'' ''2.1.0'' ''1.5.0'' = commitMessageFormat ''lib'' ''1.5.0'' ''minor'' \<and>
   generateCommitMessage ''lib'' ''2.1.0'' ''1.5.0'' \<noteq> commitMessageFormat ''lib'' ''1.5.0'' ''patch''"
proof -
  have d: "isDowngrade ''2.1.0'' ''1.5.0''" by code_simp
  have c: "updateKind ''2.1.0'' ''1.5.0'' = ''minor''" by code_simp
  show ?thesis
    using d by (simp add: generateCommitMessage_format commitMessageFormat_kind c)
qed

text \<open>
  C10, amended: when neither the first nor the second dotted component of the latest
  version, parsed as an integer, is strictly greater than the current version's, the
  update type is patch; so it is for every pair whose compared components are not
  numeric, a comparison with a component that does not parse being never "greater". A
  downgrade is classified patch exactly when the second component of the latest version
  is not strictly greater than the current one's (as from \<^verbatim>\<open>2.0.0\<close> to \<^verbatim>\<open>1.0.0\<close>), and minor
  otherwise.
\<close>

theorem C10_patch_otherwise:
  "(\<not> gt (majorOf latest) (majorOf current) \<and> \<not> gt (minorOf latest) (minorOf current)
      \<longrightarrow> generateCommitMessage assetName current latest
            = commitMessageFormat assetName latest ''patch'') \<and>
   ((majorOf latest = NaN \<or> majorOf current = NaN) \<and>
    (minorOf latest = NaN \<or> minorOf current = NaN)
      \<longrightarrow> generateCommitMessage assetName current latest
            = commitMessageFormat assetName latest ''patch'') \<and>
   (isDowngrade current latest
      \<longrightarrow> generateCommitMessage assetName current latest
            = commitMessageFormat assetName latest
                (if gt (minorOf latest) (minorOf current) then ''minor'' else ''patch''))"
  by (auto simp: generateCommitMessage_format updateKind_cases dest: gt_NaN downgrade_not_major)

theorem C10_patch_otherwise_witness:
  "(\<not> gt (majorOf ''1.0.0'') (majorOf ''2.0.0'') \<and> \<not> gt (minorOf ''1.0.0'') (minorOf ''2.0.0'')) \<and>
   isDowngrade ''2.0.0'' ''1.0.0'' \<and>
   generateCommitMessage ''lib'' ''2.0.0'' ''1.0.0'' = commitMessageFormat ''lib'' ''1.0.0'' ''patch'' \<and>
   (majorOf ''latest'' = NaN \<and> minorOf ''latest'' = NaN) \<and>
   generateCommitMessage ''lib'' ''1.2.3'' ''latest'' = commitMessageFormat ''lib'' ''latest'' ''patch''"
proof -
  have h: "\<not> gt (majorOf ''1.0.0'') (majorOf ''2.0.0'') \<and> \<not> gt (minorOf ''1.0.0'') (minorOf ''2.0.0'')"
    by code_simp
  have d: "isDowngrade ''2.0.0'' ''1.0.0''"
    by code_simp
  have n: "majorOf ''latest'' = NaN \<and> minorOf ''latest'' = NaN"
    by code_simp
  from C10_patch_otherwise [of "''1.0.0''" "''2.0.0''" "''lib''"] h d
  have a: "generateCommitMessage ''lib'' ''2.0.0'' ''1.0.0'' = commitMessageFormat ''lib'' ''1.0.0'' ''patch''"
    by blast
  from C10_patch_otherwise [of "''latest''" "''1.2.3''" "''lib''"] n
  have b: "generateCommitMessage ''lib'' ''1.2.3'' ''latest'' = commitMessageFormat ''lib'' ''latest'' ''patch''"
    by blast
  from h d a n b show ?thesis by blast
qed

subsection \<open>The asset extractor\<close>

lemma find_cdnjs:
  "startsWith u ''https://cdnjs.cloudflare.com'' \<Longrightarrow>
     find (\<lambda>(prefix, provider). startsWith u prefix) cdnMap
       = Some (''https://cdnjs.cloudflare.com'', cdnjs)"
  by (simp add: cdnMap_def)

lemma startsWith_iff: "startsWith s p \<longleftrightarrow> (\<exists>r. s = p @ r)"
  unfolding startsWith_def by (metis append_eq_conv_conj append_take_drop_id)

lemma prefixes_disjoint:
  "startsWith u ''https://cdn.jsdelivr.net'' \<Longrightarrow> \<not> startsWith u ''https://cdnjs.cloudflare.com''"
  by (auto simp: startsWith_iff)

lemma find_jsdelivr:
  "startsWith u ''https://cdn.jsdelivr.net'' \<Longrightarrow>
     find (\<lambda>(prefix, provider). startsWith u prefix) cdnMap
       = Some (''https://cdn.jsdelivr.net'', jsdelivr)"
  using prefixes_disjoint [of u] by (simp add: cdnMap_def)

text \<open>
  C5: a URL of the cdnjs origin whose path has fewer than 4 slash-separated segments, and
  a URL of the jsdelivr origin whose path has no second segment that splits into exactly
  two parts on \<^verbatim>\<open>@\<close>, is discarded: \<^verbatim>\<open>extractAsset\<close> returns null, and so does
  \<^verbatim>\<open>tryGetAsset\<close>, which calls it.
\<close>

theorem C5_extractor_discards:
  assumes "pathname u = Some p"
  shows "(startsWith u ''https://cdnjs.cloudflare.com'' \<and>
          length (split_str CHR ''/'' (drop 1 p)) < 4
            \<longrightarrow> extractAsset pathname cdnjs u i = Inr None \<and> tryGetAsset pathname u i = Inr None) \<and>
         (startsWith u ''https://cdn.jsdelivr.net'' \<and>
          \<not> (2 \<le> length (split_str CHR ''/'' (drop 1 p)) \<and>
             length (split_str CHR ''@'' (split_str CHR ''/'' (drop 1 p) ! 1)) = 2)
            \<longrightarrow> extractAsset pathname jsdelivr u i = Inr None \<and> tryGetAsset pathname u i = Inr None)"
proof (intro conjI impI)
  assume a: "startsWith u ''https://cdnjs.cloudflare.com'' \<and>
             length (split_str CHR ''/'' (drop 1 p)) < 4"
  then show "extractAsset pathname cdnjs u i = Inr None"
    using assms by (simp add: extractAsset_def Let_def)
  with a show "tryGetAsset pathname u i = Inr None"
    by (simp add: tryGetAsset_def find_cdnjs)
next
  assume a: "startsWith u ''https://cdn.jsdelivr.net'' \<and>
             \<not> (2 \<le> length (split_str CHR ''/'' (drop 1 p)) \<and>
                length (split_str CHR ''@'' (split_str CHR ''/'' (drop 1 p) ! 1)) = 2)"
  then show "extractAsset pathname jsdelivr u i = Inr None"
    using assms by (auto simp: extractAsset_def Let_def)
  with a show "tryGetAsset pathname u i = Inr None"
    by (simp add: tryGetAsset_def find_jsdelivr)
qed

theorem C5_extractor_discards_witness:
  "examplePathname ''https://cdnjs.cloudflare.com/ajax/libs/foo'' = Some ''/ajax/libs/foo'' \<and>
   startsWith ''https://cdnjs.cloudflare.com/ajax/libs/foo'' ''https://cdnjs.cloudflare.com'' \<and>
   length (split_str CHR ''/'' (drop 1 ''/ajax/libs/foo'')) < 4 \<and>
   tryGetAsset examplePathname ''https://cdnjs.cloudflare.com/ajax/libs/foo'' None = Inr None \<and>
   examplePathname ''https://cdn.jsdelivr.net/npm/bootstrap/dist/a.js'' = Some ''/npm/bootstrap/dist/a.js'' \<and>
   startsWith ''https://cdn.jsdelivr.net/npm/bootstrap/dist/a.js'' ''https://cdn.jsdelivr.net'' \<and>
   length (split_str CHR ''@'' (split_str CHR ''/'' (drop 1 ''/npm/bootstrap/dist/a.js'') ! 1)) \<noteq> 2 \<and>
   tryGetAsset examplePathname ''https://cdn.jsdelivr.net/npm/bootstrap/dist/a.js'' None = Inr None"
proof -
  let ?u = "''https://cdnjs.cloudflare.com/ajax/libs/foo''"
  let ?v = "''https://cdn.jsdelivr.net/npm/bootstrap/dist/a.js''"
  have p: "examplePathname ?u = Some ''/ajax/libs/foo''" by (simp add: examplePathname_def)
  have s: "startsWith ?u ''https://cdnjs.cloudflare.com''" by (simp add: startsWith_def)
  have l: "length (split_str CHR ''/'' (drop 1 ''/ajax/libs/foo'')) < 4" by simp
  have q: "examplePathname ?v = Some ''/npm/bootstrap/dist/a.js''" by (simp add: examplePathname_def)
  have t: "startsWith ?v ''https://cdn.jsdelivr.net''" by (simp add: startsWith_def)
  have m: "length (split_str CHR ''@'' (split_str CHR ''/'' (drop 1 ''/npm/bootstrap/dist/a.js'') ! 1)) \<noteq> 2"
    by simp
  have r1: "tryGetAsset examplePathname ?u None = Inr None"
    using C5_extractor_discards [of examplePathname ?u "''/ajax/libs/foo''" None, OF p] s l by blast
  have r2: "tryGetAsset examplePathname ?v None = Inr None"
    using C5_extractor_discards [of examplePathname ?v "''/npm/bootstrap/dist/a.js''" None, OF q] t m by blast
  show ?thesis
    using p s l r1 q t m r2 by blast
qed

subsection \<open>The version reconciler\<close>

lemma getKey_inj:
  "getKey a = getKey b \<longleftrightarrow> cdn a = cdn b \<and> name a = name b"
  by (cases "cdn a"; cases "cdn b") (auto simp: getKey_def)

lemma foldl_files:
  "foldl (\<lambda>acc (fileName, fileAssets). foldl f acc fileAssets) acc fam
     = foldl f acc (concat (map snd fam))"
  by (induction fam arbitrary: acc) (auto simp: case_prod_beta)

text \<open>The items of all scanned files, in scanning order.\<close>

lemma in_items_iff:
  "i \<in> set (concat (map snd fam)) \<longleftrightarrow> (\<exists>(f, items) \<in> set fam. i \<in> set items)"
  by (force simp: case_prod_beta)

lemma addAsset_mem:
  "(\<exists>a \<in> set (foldl addAsset acc items). cdn a = c \<and> name a = n) \<longleftrightarrow>
     (\<exists>a \<in> set acc. cdn a = c \<and> name a = n) \<or> (\<exists>i \<in> set items. cdn i = c \<and> name i = n)"
proof (induction items arbitrary: acc)
  case Nil
  then show ?case by simp
next
  case (Cons i items)
  have step: "(\<exists>a \<in> set (addAsset acc i). cdn a = c \<and> name a = n) \<longleftrightarrow>
      (\<exists>a \<in> set acc. cdn a = c \<and> name a = n) \<or> (cdn i = c \<and> name i = n)"
    by (auto simp: addAsset_def list_ex_iff)
  show ?case
    using Cons.IH [of "addAsset acc i"] step by auto
qed

text \<open>No two entries of a list of assets name the same (cdn, name) pair.\<close>

lemma addAsset_distinct:
  "distinct (map (\<lambda>a. (cdn a, name a)) acc) \<Longrightarrow>
     distinct (map (\<lambda>a. (cdn a, name a)) (foldl addAsset acc items))"
proof (induction items arbitrary: acc)
  case Nil
  then show ?case by simp
next
  case (Cons i items)
  have "distinct (map (\<lambda>a. (cdn a, name a)) (addAsset acc i))"
    using Cons.prems by (auto simp: addAsset_def list_ex_iff)
  then show ?case
    using Cons.IH by simp
qed

text \<open>The versions recorded under a key.\<close>

lemma addVersion_versions:
  "(case foldl addVersion av items k of None \<Rightarrow> {} | Some vs \<Rightarrow> version ` set vs) =
     (case av k of None \<Rightarrow> {} | Some vs \<Rightarrow> version ` set vs) \<union>
     {version i | i. i \<in> set items \<and> getKey i = k}"
proof (induction items arbitrary: av)
  case Nil
  then show ?case by simp
next
  case (Cons i items)
  have step: "(case addVersion av i k of None \<Rightarrow> {} | Some vs \<Rightarrow> version ` set vs) =
      (case av k of None \<Rightarrow> {} | Some vs \<Rightarrow> version ` set vs) \<union>
      (if getKey i = k then {version i} else {})"
  proof (cases "getKey i = k")
    case False
    then show ?thesis by (simp add: addVersion_def Let_def)
  next
    case True
    show ?thesis
    proof (cases "av k")
      case None
      with True show ?thesis by (simp add: addVersion_def Let_def)
    next
      case (Some vs)
      with True show ?thesis
        by (auto simp: addVersion_def Let_def list_ex_iff intro: rev_image_eqI)
    qed
  qed
  show ?case
    unfolding foldl_Cons Cons.IH [of "addVersion av i"] step by auto
qed

lemma markStale_mem:
  assumes "cdn asset = c \<and> name asset = n \<longrightarrow> \<not> (\<exists>a \<in> set acc. cdn a = c \<and> name a = n)"
  shows "(\<exists>a \<in> set (markStale latest av acc asset). cdn a = c \<and> name a = n) \<longleftrightarrow>
     (\<exists>a \<in> set acc. cdn a = c \<and> name a = n) \<or>
     (cdn asset = c \<and> name asset = n \<and>
      (\<exists>v \<in> (case av (getKey asset) of None \<Rightarrow> {} | Some vs \<Rightarrow> version ` set vs).
          Some v \<noteq> latest (getKey asset)))"
proof (cases "av (getKey asset)")
  case None
  then show ?thesis by (simp add: markStale_def)
next
  case (Some vs)
  let ?f = "\<lambda>acc v.
     if Some (version v) \<noteq> latest (getKey asset) then
       (if \<not> list_ex (\<lambda>a. cdn a = cdn asset \<and> name a = name asset) acc
        then acc @ [\<lparr>cdn = cdn asset, name = name asset\<rparr>] else acc)
     else acc"
  have loop: "(\<exists>a \<in> set (foldl ?f acc' ws). cdn a = c \<and> name a = n) \<longleftrightarrow>
      (\<exists>a \<in> set acc'. cdn a = c \<and> name a = n) \<or>
      (cdn asset = c \<and> name asset = n \<and> (\<exists>v \<in> set ws. Some (version v) \<noteq> latest (getKey asset)))"
    for acc' :: "Asset list" and ws :: "AssetVersion list"
  proof (induction ws arbitrary: acc')
    case Nil
    then show ?case by simp
  next
    case (Cons w ws)
    have step: "(\<exists>a \<in> set (?f acc' w). cdn a = c \<and> name a = n) \<longleftrightarrow>
        (\<exists>a \<in> set acc'. cdn a = c \<and> name a = n) \<or>
        (cdn asset = c \<and> name asset = n \<and> Some (version w) \<noteq> latest (getKey asset))"
      by (auto simp: list_ex_iff)
    show ?case
      unfolding foldl_Cons Cons.IH [of "?f acc' w"] step by auto
  qed
  show ?thesis
    using Some loop [of acc vs] by (auto simp: markStale_def Let_def)
qed

lemma markStale_distinct:
  "distinct (map (\<lambda>a. (cdn a, name a)) acc) \<Longrightarrow>
     distinct (map (\<lambda>a. (cdn a, name a)) (markStale latest av acc asset))"
proof (cases "av (getKey asset)")
  case None
  then show "distinct (map (\<lambda>a. (cdn a, name a)) acc) \<Longrightarrow> ?thesis"
    by (simp add: markStale_def)
next
  case (Some vs)
  let ?f = "\<lambda>acc v.
     if Some (version v) \<noteq> latest (getKey asset) then
       (if \<not> list_ex (\<lambda>a. cdn a = cdn asset \<and> name a = name asset) acc
        then acc @ [\<lparr>cdn = cdn asset, name = name asset\<rparr>] else acc)
     else acc"
  have loop: "distinct (map (\<lambda>a. (cdn a, name a)) acc') \<Longrightarrow>
      distinct (map (\<lambda>a. (cdn a, name a)) (foldl ?f acc' ws))"
    for acc' :: "Asset list" and ws :: "AssetVersion list"
  proof (induction ws arbitrary: acc')
    case Nil
    then show ?case by simp
  next
    case (Cons w ws)
    have "distinct (map (\<lambda>a. (cdn a, name a)) (?f acc' w))"
      using Cons.prems by (auto simp: list_ex_iff)
    then show ?case
      unfolding foldl_Cons by (rule Cons.IH)
  qed
  assume "distinct (map (\<lambda>a. (cdn a, name a)) acc)"
  then show ?thesis
    using Some loop [of acc vs] by (simp add: markStale_def Let_def)
qed

lemma markStale_subset:
  "a \<in> set (markStale latest av acc asset) \<Longrightarrow>
     a \<in> set acc \<or> (cdn a = cdn asset \<and> name a = name asset)"
proof (cases "av (getKey asset)")
  case None
  then show "a \<in> set (markStale latest av acc asset) \<Longrightarrow> ?thesis"
    by (simp add: markStale_def)
next
  case (Some vs)
  let ?f = "\<lambda>acc v.
     if Some (version v) \<noteq> latest (getKey asset) then
       (if \<not> list_ex (\<lambda>a. cdn a = cdn asset \<and> name a = name asset) acc
        then acc @ [\<lparr>cdn = cdn asset, name = name asset\<rparr>] else acc)
     else acc"
  have loop: "a \<in> set (foldl ?f acc' ws) \<Longrightarrow> a \<in> set acc' \<or> (cdn a = cdn asset \<and> name a = name asset)"
    for acc' :: "Asset list" and ws :: "AssetVersion list"
  proof (induction ws arbitrary: acc')
    case Nil
    then show ?case by simp
  next
    case (Cons w ws)
    from Cons.prems Cons.IH [of "?f acc' w"]
    have "a \<in> set (?f acc' w) \<or> (cdn a = cdn asset \<and> name a = name asset)"
      by simp
    then show ?case by (auto split: if_splits)
  qed
  assume "a \<in> set (markStale latest av acc asset)"
  then show ?thesis
    using Some loop [of acc vs] by (simp add: markStale_def Let_def)
qed

lemma findAssetsToUpdate_mem:
  assumes "distinct (map (\<lambda>a. (cdn a, name a)) assets)"
      and "\<forall>a \<in> set acc. \<forall>b \<in> set assets. \<not> (cdn a = cdn b \<and> name a = name b)"
  shows "(\<exists>a \<in> set (foldl (markStale latest av) acc assets). cdn a = c \<and> name a = n) \<longleftrightarrow>
     (\<exists>a \<in> set acc. cdn a = c \<and> name a = n) \<or>
     (\<exists>asset \<in> set assets. cdn asset = c \<and> name asset = n \<and>
        (\<exists>v \<in> (case av (getKey asset) of None \<Rightarrow> {} | Some vs \<Rightarrow> version ` set vs).
            Some v \<noteq> latest (getKey asset)))"
  using assms
proof (induction assets arbitrary: acc)
  case Nil
  then show ?case by simp
next
  case (Cons asset assets)
  have fresh: "cdn asset = c \<and> name asset = n \<longrightarrow> \<not> (\<exists>a \<in> set acc. cdn a = c \<and> name a = n)"
    using Cons.prems(2) by auto
  have d: "distinct (map (\<lambda>a. (cdn a, name a)) assets)"
    using Cons.prems(1) by simp
  have sep: "\<forall>a \<in> set (markStale latest av acc asset). \<forall>b \<in> set assets.
               \<not> (cdn a = cdn b \<and> name a = name b)"
  proof (intro ballI)
    fix a b
    assume a: "a \<in> set (markStale latest av acc asset)" and b: "b \<in> set assets"
    from markStale_subset [OF a] show "\<not> (cdn a = cdn b \<and> name a = name b)"
    proof
      assume "a \<in> set acc"
      then show ?thesis using Cons.prems(2) b by auto
    next
      assume "cdn a = cdn asset \<and> name a = name asset"
      moreover have "(cdn asset, name asset) \<notin> (\<lambda>a. (cdn a, name a)) ` set assets"
        using Cons.prems(1) by simp
      moreover have "(cdn b, name b) \<in> (\<lambda>a. (cdn a, name a)) ` set assets"
        using b by (intro image_eqI [where x = b]) simp_all
      ultimately show ?thesis by auto
    qed
  qed
  show ?case
    unfolding foldl_Cons Cons.IH [OF d sep] markStale_mem [OF fresh] by auto
qed

lemma findAssetsToUpdate_distinct:
  "distinct (map (\<lambda>a. (cdn a, name a)) acc) \<Longrightarrow>
     distinct (map (\<lambda>a. (cdn a, name a)) (foldl (markStale latest av) acc assets))"
  by (induction assets arbitrary: acc) (simp_all add: markStale_distinct)

text \<open>
  C1: for an asset (cdn, name) whose latest version was resolved, the stale set holds the
  asset if and only if some item of a scanned file has that cdn and name and a version
  other than the resolved one; and no two entries of the stale set name the same
  (cdn, name) pair, whatever versions were observed.
\<close>

theorem C1_stale_iff_version_differs:
  assumes "latestVersionsOf getLatestVersion fileAssetMap (getKey \<lparr>cdn = c, name = n\<rparr>) = Some latest"
  shows "((\<exists>a \<in> set (assetsToUpdateOf getLatestVersion fileAssetMap). cdn a = c \<and> name a = n) \<longleftrightarrow>
          (\<exists>(file, items) \<in> set fileAssetMap.
             \<exists>i \<in> set items. cdn i = c \<and> name i = n \<and> version i \<noteq> latest)) \<and>
         distinct (map (\<lambda>a. (cdn a, name a)) (assetsToUpdateOf getLatestVersion fileAssetMap))"
proof
  define items where "items = concat (map snd fileAssetMap)"
  let ?assets = "findUniqueAssets fileAssetMap"
  let ?av = "findAssetVersions fileAssetMap"
  let ?latest = "latestVersionsOf getLatestVersion fileAssetMap"
  have assets: "?assets = foldl addAsset [] items"
    by (simp add: findUniqueAssets_def foldl_files items_def)
  have d: "distinct (map (\<lambda>a. (cdn a, name a)) ?assets)"
    unfolding assets by (rule addAsset_distinct) simp
  have mem: "(\<exists>a \<in> set ?assets. cdn a = c' \<and> name a = n') \<longleftrightarrow>
             (\<exists>i \<in> set items. cdn i = c' \<and> name i = n')" for c' n'
    unfolding assets addAsset_mem by simp
  have vs: "(case ?av k of None \<Rightarrow> {} | Some vs \<Rightarrow> version ` set vs) =
            {version i | i. i \<in> set items \<and> getKey i = k}" for k
    by (simp add: findAssetVersions_def foldl_files addVersion_versions items_def)
  have conv: "(\<exists>i \<in> set items. Q i) \<longleftrightarrow>
              (\<exists>(file, its) \<in> set fileAssetMap. \<exists>i \<in> set its. Q i)" for Q
    unfolding items_def by (force simp: case_prod_beta)
  have key: "getKey asset = getKey \<lparr>cdn = c, name = n\<rparr>" if "cdn asset = c \<and> name asset = n"
    for asset :: Asset
    using that by (simp add: getKey_inj)
  have stale: "(\<exists>a \<in> set (assetsToUpdateOf getLatestVersion fileAssetMap). cdn a = c \<and> name a = n) \<longleftrightarrow>
      (\<exists>asset \<in> set ?assets. cdn asset = c \<and> name asset = n \<and>
         (\<exists>v \<in> {version i | i. i \<in> set items \<and> getKey i = getKey asset}.
             Some v \<noteq> ?latest (getKey asset)))"
    unfolding assetsToUpdateOf_def findAssetsToUpdate_def
    using findAssetsToUpdate_mem [OF d, of "[]" ?latest ?av c n] by (simp add: vs)
  have "(\<exists>a \<in> set (assetsToUpdateOf getLatestVersion fileAssetMap). cdn a = c \<and> name a = n) \<longleftrightarrow>
        (\<exists>i \<in> set items. cdn i = c \<and> name i = n \<and> version i \<noteq> latest)"
  proof
    assume "\<exists>a \<in> set (assetsToUpdateOf getLatestVersion fileAssetMap). cdn a = c \<and> name a = n"
    then obtain asset :: Asset and i where a: "cdn asset = c \<and> name asset = n"
      and i: "i \<in> set items" "getKey i = getKey asset"
      and v: "Some (version i) \<noteq> ?latest (getKey asset)"
      unfolding stale by auto
    from v key [OF a] assms have "version i \<noteq> latest" by auto
    moreover from i(2) a have "cdn i = c \<and> name i = n" by (auto simp: getKey_inj)
    ultimately show "\<exists>i \<in> set items. cdn i = c \<and> name i = n \<and> version i \<noteq> latest"
      using i(1) by blast
  next
    assume "\<exists>i \<in> set items. cdn i = c \<and> name i = n \<and> version i \<noteq> latest"
    then obtain i where i: "i \<in> set items" "cdn i = c \<and> name i = n" "version i \<noteq> latest"
      by blast
    from i(1,2) mem [of c n] obtain asset :: Asset where a: "asset \<in> set ?assets" "cdn asset = c \<and> name asset = n"
      by blast
    have k: "getKey i = getKey asset" using i(2) a(2) by (simp add: getKey_inj)
    have "Some (version i) \<noteq> ?latest (getKey asset)"
      using i(3) key [OF a(2)] assms by simp
    then show "\<exists>a \<in> set (assetsToUpdateOf getLatestVersion fileAssetMap). cdn a = c \<and> name a = n"
      unfolding stale using a i(1) k by blast
  qed
  then show "(\<exists>a \<in> set (assetsToUpdateOf getLatestVersion fileAssetMap). cdn a = c \<and> name a = n) \<longleftrightarrow>
          (\<exists>(file, items) \<in> set fileAssetMap.
             \<exists>i \<in> set items. cdn i = c \<and> name i = n \<and> version i \<noteq> latest)"
    unfolding conv .
  show "distinct (map (\<lambda>a. (cdn a, name a)) (assetsToUpdateOf getLatestVersion fileAssetMap))"
    unfolding assetsToUpdateOf_def findAssetsToUpdate_def
    by (rule findAssetsToUpdate_distinct) simp
qed

theorem C1_stale_iff_version_differs_witness:
  "latestVersionsOf fooLatest
     [(''index.html'', [cdnjsItem ''foo'' ''1.0.0'' None, cdnjsItem ''foo'' ''2.0.0'' None])]
     (getKey \<lparr>cdn = cdnjs, name = ''foo''\<rparr>) = Some ''2.0.0'' \<and>
   (\<exists>a \<in> set (assetsToUpdateOf fooLatest
       [(''index.html'', [cdnjsItem ''foo'' ''1.0.0'' None, cdnjsItem ''foo'' ''2.0.0'' None])]).
      cdn a = cdnjs \<and> name a = ''foo'') \<and>
   distinct (map (\<lambda>a. (cdn a, name a)) (assetsToUpdateOf fooLatest
       [(''index.html'', [cdnjsItem ''foo'' ''1.0.0'' None, cdnjsItem ''foo'' ''2.0.0'' None])])) \<and>
   assetsToUpdateOf fooLatest
       [(''index.html'', [cdnjsItem ''foo'' ''1.0.0'' None, cdnjsItem ''foo'' ''2.0.0'' None])]
     = [\<lparr>cdn = cdnjs, name = ''foo''\<rparr>]"
proof -
  let ?fam = "[(''index.html'', [cdnjsItem ''foo'' ''1.0.0'' None, cdnjsItem ''foo'' ''2.0.0'' None])]"
  have h: "latestVersionsOf fooLatest ?fam (getKey \<lparr>cdn = cdnjs, name = ''foo''\<rparr>) = Some ''2.0.0''"
    by code_simp
  have i: "\<exists>(file, items) \<in> set ?fam.
             \<exists>i \<in> set items. cdn i = cdnjs \<and> name i = ''foo'' \<and> version i \<noteq> ''2.0.0''"
    by (simp add: cdnjsItem_def)
  have v: "assetsToUpdateOf fooLatest ?fam = [\<lparr>cdn = cdnjs, name = ''foo''\<rparr>]"
    by code_simp
  from C1_stale_iff_version_differs [OF h] i
  have "(\<exists>a \<in> set (assetsToUpdateOf fooLatest ?fam). cdn a = cdnjs \<and> name a = ''foo'') \<and>
        distinct (map (\<lambda>a. (cdn a, name a)) (assetsToUpdateOf fooLatest ?fam))"
    by blast
  with h v show ?thesis by blast
qed

text \<open>
  C2 fails on the code: when the lookup of the latest version answers \<^verbatim>\<open>null\<close>, nothing
  is stored for the asset, the stale test compares every observed version with
  \<^verbatim>\<open>undefined\<close>, and the asset enters the stale set. Here \<^verbatim>\<open>bar\<close> is unknown to the client
  and \<^verbatim>\<open>foo\<close> is at its latest version.
\<close>

theorem C2_unresolved_asset_is_stale:
  "fooLatest CdnjsClient ''bar'' = None \<and>
   latestVersionsOf fooLatest
     [(''index.html'', [cdnjsItem ''foo'' ''2.0.0'' None, cdnjsItem ''bar'' ''1.0.0'' None])]
     (getKey \<lparr>cdn = cdnjs, name = ''bar''\<rparr>) = None \<and>
   assetsToUpdateOf fooLatest
     [(''index.html'', [cdnjsItem ''foo'' ''2.0.0'' None, cdnjsItem ''bar'' ''1.0.0'' None])]
     = [\<lparr>cdn = cdnjs, name = ''bar''\<rparr>]"
  by code_simp

subsection \<open>The update applier\<close>

text \<open>
  C3 fails on the code: \<^verbatim>\<open>lowestVersion\<close> starts at \<^verbatim>\<open>0.0.0\<close> and is overwritten whenever it
  is smaller than the version of a replaced occurrence, so it ends as the greatest of
  the replaced versions, not the lowest. With occurrences at 1.5.0 and 2.0.0, both
  replaced by 2.1.0, the version handed to \<^verbatim>\<open>generateCommitMessage\<close> is 2.0.0, and the
  message says minor where the lowest stale version, 1.5.0, gives major.
\<close>

theorem C3_lowest_version_is_greatest:
  "(case updateFiles foo210 foo210Files [(''index.html'', twoVersionsItems)] (0, ''0.0.0'')
           twoVersionsWorld of
      (r, w) \<Rightarrow>
        r = Returned (1, ''2.0.0'') \<and>
        files w ''index.html'' =
          Some (''<script src=\"https://cdnjs.cloudflare.com/ajax/libs/foo/2.1.0/foo.min.js\"></script>'' @
                ''<script src=\"https://cdnjs.cloudflare.com/ajax/libs/foo/2.1.0/foo.min.js\"></script>'')) \<and>
   fst (chooseCommitMessage exampleOptions foo210 ''2.0.0'' twoVersionsWorld)
     = Returned (generateCommitMessage ''foo'' ''2.0.0'' ''2.1.0'') \<and>
   str_lt ''1.5.0'' ''2.0.0'' \<and>
   generateCommitMessage ''foo'' ''2.0.0'' ''2.1.0'' = commitMessageFormat ''foo'' ''2.1.0'' ''minor'' \<and>
   generateCommitMessage ''foo'' ''1.5.0'' ''2.1.0'' = commitMessageFormat ''foo'' ''2.1.0'' ''major''"
proof -
  have k: "updateKind ''2.0.0'' ''2.1.0'' = ''minor''" "updateKind ''1.5.0'' ''2.1.0'' = ''major''"
    by code_simp+
  have r: "(case updateFiles foo210 foo210Files [(''index.html'', twoVersionsItems)] (0, ''0.0.0'')
           twoVersionsWorld of
      (r, w) \<Rightarrow>
        r = Returned (1, ''2.0.0'') \<and>
        files w ''index.html'' =
          Some (''<script src=\"https://cdnjs.cloudflare.com/ajax/libs/foo/2.1.0/foo.min.js\"></script>'' @
                ''<script src=\"https://cdnjs.cloudflare.com/ajax/libs/foo/2.1.0/foo.min.js\"></script>''))"
    by code_simp
  have c: "fst (chooseCommitMessage exampleOptions foo210 ''2.0.0'' twoVersionsWorld)
     = Returned (generateCommitMessage ''foo'' ''2.0.0'' ''2.1.0'')"
    by (simp add: chooseCommitMessage_def exampleOptions_def foo210_def)
  have l: "str_lt ''1.5.0'' ''2.0.0''"
    by code_simp
  show ?thesis
    using r c l by (simp only: generateCommitMessage_format k)
qed

text \<open>
  An item is skipped when the text does not hold its URL, or when the listing of the
  latest version has no file of its name.
\<close>

lemma replaceAsset_skipped:
  "str_includes content (url a) \<longrightarrow> find (\<lambda>f. CdnFile.fileName f = fileName a) cdnFiles = None \<Longrightarrow>
     replaceAsset cdnFiles (content, dirty, lowest) a = (content, dirty, lowest)"
  by (auto simp: replaceAsset_def split: option.splits)

lemma replaceAssets_skipped:
  "\<forall>a \<in> set xs. str_includes content (url a) \<longrightarrow>
       find (\<lambda>f. CdnFile.fileName f = fileName a) cdnFiles = None \<Longrightarrow>
     foldl (replaceAsset cdnFiles) (content, dirty, lowest) xs = (content, dirty, lowest)"
  by (induction xs) (simp_all add: replaceAsset_skipped)

lemma updateFiles_Cons:
  assumes "files w f = Some content"
      and "foldl (replaceAsset cf) (content, False, lowest) (staleItems u items) = (content', dirty, lowest')"
  shows "updateFiles u cf ((f, items) # rest) (n, lowest) w =
           (if dirty then updateFiles u cf rest (n + 1, lowest') (w\<lparr>files := (files w)(f \<mapsto> content')\<rparr>)
            else updateFiles u cf rest (n, lowest') w)"
  using assms by simp

lemma updateFiles_unreadable:
  "files w f = None \<Longrightarrow> updateFiles u cf ((f, items) # rest) (n, lowest) w = (Threw (ReadFailed f), w)"
  by simp

lemma updateFiles_Nil: "updateFiles u cf [] vars w = (Returned vars, w)"
  by simp

declare updateFiles.simps [simp del]

lemma updateFiles_append:
  "updateFiles u cf (xs @ ys) vars w =
     andThen (updateFiles u cf xs vars) (\<lambda>vars'. updateFiles u cf ys vars') w"
proof (induction xs arbitrary: vars w)
  case Nil
  then show ?case by (simp add: andThen_def updateFiles_Nil)
next
  case (Cons x xs)
  obtain f items where x: "x = (f, items)" by (cases x)
  obtain n lowest where v: "vars = (n, lowest)" by (cases vars)
  show ?case
  proof (cases "files w f")
    case None
    then show ?thesis unfolding x v by (simp add: andThen_def updateFiles_unreadable)
  next
    case (Some content)
    obtain content' dirty lowest' where
      r: "foldl (replaceAsset cf) (content, False, lowest) (staleItems u items) = (content', dirty, lowest')"
      by (metis prod_cases3)
    have "updateFiles u cf ((f, items) # xs @ ys) (n, lowest) w =
            andThen (updateFiles u cf ((f, items) # xs) (n, lowest)) (\<lambda>vars'. updateFiles u cf ys vars') w"
      unfolding andThen_def updateFiles_Cons [OF Some r]
      using Cons.IH by (simp add: andThen_def)
    then show ?thesis unfolding x v by simp
  qed
qed

lemma updateFiles_single_noop:
  assumes "files w file = Some content"
      and "\<forall>a \<in> set (staleItems u items). str_includes content (url a) \<longrightarrow>
             find (\<lambda>f. CdnFile.fileName f = fileName a) cf = None"
  shows "updateFiles u cf ((file, items) # rest) (n, lowest) w = updateFiles u cf rest (n, lowest) w"
  using updateFiles_Cons [OF assms(1) replaceAssets_skipped [OF assms(2)]] by simp

text \<open>The loop over the files touches only the files it visits, and no call log.\<close>

lemma updateFiles_frame:
  "file \<notin> fst ` set fam \<Longrightarrow> files (snd (updateFiles u cf fam vars w)) file = files w file"
proof (induction fam arbitrary: vars w)
  case Nil
  then show ?case by (simp add: updateFiles_Nil)
next
  case (Cons x xs)
  obtain f items where x: "x = (f, items)" by (cases x)
  obtain n lowest where v: "vars = (n, lowest)" by (cases vars)
  from Cons.prems x have ne: "file \<noteq> f" and nin: "file \<notin> fst ` set xs" by auto
  show ?case
  proof (cases "files w f")
    case None
    then show ?thesis unfolding x v by (simp add: updateFiles_unreadable)
  next
    case (Some content)
    obtain content' dirty lowest' where
      r: "foldl (replaceAsset cf) (content, False, lowest) (staleItems u items) = (content', dirty, lowest')"
      by (metis prod_cases3)
    show ?thesis
      unfolding x v updateFiles_Cons [OF Some r] using ne Cons.IH [OF nin] by simp
  qed
qed


text \<open>
  C8: a file in which no occurrence is replaced, because its text holds the URL of none
  of its stale occurrences (or holds the URL only of occurrences whose file name is not
  in the listing of the latest version), is left as it is and is not counted: on its own
  the file leaves the world and the variables unchanged, within a run the outcome is
  that of the run without the file, and the file's content is the same after the run as
  before.
\<close>

theorem C8_file_without_stale_url_untouched:
  assumes "files w file = Some content"
      and "\<forall>a \<in> set (staleItems assetUpdate items). str_includes content (url a) \<longrightarrow>
             find (\<lambda>f. CdnFile.fileName f = fileName a) cdnFiles = None"
      and "file \<notin> fst ` set earlier" and "file \<notin> fst ` set later"
  shows "updateFiles assetUpdate cdnFiles [(file, items)] (filesUpdated, lowestVersion) w
           = (Returned (filesUpdated, lowestVersion), w) \<and>
         updateFiles assetUpdate cdnFiles (earlier @ (file, items) # later) vars w
           = updateFiles assetUpdate cdnFiles (earlier @ later) vars w \<and>
         files (snd (updateFiles assetUpdate cdnFiles (earlier @ (file, items) # later) vars w)) file
           = Some content"
proof (intro conjI)
  show "updateFiles assetUpdate cdnFiles [(file, items)] (filesUpdated, lowestVersion) w
          = (Returned (filesUpdated, lowestVersion), w)"
    using updateFiles_single_noop [OF assms(1,2)] by (simp add: updateFiles_Nil)
  have same: "files (snd (updateFiles assetUpdate cdnFiles earlier vars w)) file = Some content"
    using updateFiles_frame [OF assms(3)] assms(1) by simp
  show eq: "updateFiles assetUpdate cdnFiles (earlier @ (file, items) # later) vars w
          = updateFiles assetUpdate cdnFiles (earlier @ later) vars w"
  proof (cases "updateFiles assetUpdate cdnFiles earlier vars w")
    case (Pair r w1)
    show ?thesis
    proof (cases r)
      case (Threw e)
      with Pair show ?thesis by (simp add: updateFiles_append andThen_def)
    next
      case (Returned vars1)
      obtain n1 l1 where v: "vars1 = (n1, l1)" by (cases vars1)
      from same Pair have c: "files w1 file = Some content" by simp
      show ?thesis
        using Pair Returned v updateFiles_single_noop [OF c assms(2)]
        by (simp add: updateFiles_append andThen_def)
    qed
  qed
  have "file \<notin> fst ` set (earlier @ later)"
    using assms(3,4) by auto
  from updateFiles_frame [OF this] assms(1)
  show "files (snd (updateFiles assetUpdate cdnFiles (earlier @ (file, items) # later) vars w)) file
          = Some content"
    unfolding eq by simp
qed
theorem C8_file_without_stale_url_untouched_witness:
  "files exampleWorld ''index.html'' = Some indexHtml \<and>
   staleItems foo200 [cdnjsItem ''foo'' ''1.5.0'' None, cdnjsItem ''foo'' ''1.0.0'' None]
     = [cdnjsItem ''foo'' ''1.5.0'' None, cdnjsItem ''foo'' ''1.0.0'' None] \<and>
   \<not> str_includes indexHtml (url (cdnjsItem ''foo'' ''1.5.0'' None)) \<and>
   str_includes indexHtml (url (cdnjsItem ''foo'' ''1.0.0'' None)) \<and>
   find (\<lambda>f. CdnFile.fileName f = fileName (cdnjsItem ''foo'' ''1.0.0'' None)) fooRenamedFiles = None \<and>
   updateFiles foo200 fooRenamedFiles
       [(''index.html'', [cdnjsItem ''foo'' ''1.5.0'' None, cdnjsItem ''foo'' ''1.0.0'' None])]
       (0, ''0.0.0'') exampleWorld = (Returned (0, ''0.0.0''), exampleWorld) \<and>
   files (snd (updateFiles foo200 fooRenamedFiles
                 ([] @ (''index.html'', [cdnjsItem ''foo'' ''1.5.0'' None, cdnjsItem ''foo'' ''1.0.0'' None]) # [])
                 (0, ''0.0.0'') exampleWorld)) ''index.html'' = Some indexHtml"
proof -
  let ?items = "[cdnjsItem ''foo'' ''1.5.0'' None, cdnjsItem ''foo'' ''1.0.0'' None]"
  have f: "files exampleWorld ''index.html'' = Some indexHtml"
    by (simp add: exampleWorld_def)
  have s: "staleItems foo200 ?items = ?items"
    by (simp add: staleItems_def foo200_def cdnjsItem_def)
  have n: "\<not> str_includes indexHtml (url (cdnjsItem ''foo'' ''1.5.0'' None))"
    by code_simp
  have y: "str_includes indexHtml (url (cdnjsItem ''foo'' ''1.0.0'' None))"
    by code_simp
  have m: "find (\<lambda>f. CdnFile.fileName f = fileName (cdnjsItem ''foo'' ''1.0.0'' None)) fooRenamedFiles = None"
    by (simp add: fooRenamedFiles_def cdnjsItem_def)
  have a: "\<forall>a \<in> set (staleItems foo200 ?items). str_includes indexHtml (url a) \<longrightarrow>
             find (\<lambda>f. CdnFile.fileName f = fileName a) fooRenamedFiles = None"
    unfolding s using n m by simp
  have e: "''index.html'' \<notin> fst ` set ([] :: FileAssetMap)"
    by simp
  from C8_file_without_stale_url_untouched [OF f a e e, of 0 "''0.0.0''" "(0, ''0.0.0'')"]
  show ?thesis using f s n y m by blast
qed

lemma staleItems_current_removed:
  "staleItems u (filter (\<lambda>i. Some (version i) \<noteq> UpdatedAsset.version u) items) = staleItems u items"
  unfolding staleItems_def filter_filter by (rule filter_cong) auto

lemma updateFiles_current_removed:
  "updateFiles u cf
     (map (\<lambda>(f, items). (f, filter (\<lambda>i. Some (version i) \<noteq> UpdatedAsset.version u) items)) fam) vars w
   = updateFiles u cf fam vars w"
proof (induction fam arbitrary: vars w)
  case Nil
  then show ?case by simp
next
  case (Cons x xs)
  obtain f items where x: "x = (f, items)" by (cases x)
  obtain n lowest where v: "vars = (n, lowest)" by (cases vars)
  let ?items' = "filter (\<lambda>i. Some (version i) \<noteq> UpdatedAsset.version u) items"
  show ?case
  proof (cases "files w f")
    case None
    then show ?thesis unfolding x v by (simp add: updateFiles_unreadable)
  next
    case (Some content)
    obtain content' dirty lowest' where
      r: "foldl (replaceAsset cf) (content, False, lowest) (staleItems u items) = (content', dirty, lowest')"
      by (metis prod_cases3)
    then have r': "foldl (replaceAsset cf) (content, False, lowest) (staleItems u ?items')
                     = (content', dirty, lowest')"
      by (simp add: staleItems_current_removed)
    show ?thesis
      unfolding x v using Cons.IH
      by (simp add: updateFiles_Cons [OF Some r] updateFiles_Cons [OF Some r'])
  qed
qed

text \<open>
  The items at the target version are no candidates, and taking them out of the scanned
  files changes neither what the file loop does nor what \<^verbatim>\<open>applyAssetUpdate\<close> does.
\<close>

lemma current_items_no_candidates:
  "(\<forall>i \<in> set items. Some (version i) = UpdatedAsset.version assetUpdate
       \<longrightarrow> i \<notin> set (staleItems assetUpdate items)) \<and>
   updateFiles assetUpdate cdnFiles
     (map (\<lambda>(f, items). (f, filter (\<lambda>i. Some (version i) \<noteq> UpdatedAsset.version assetUpdate) items))
        fileAssetMap) vars w
     = updateFiles assetUpdate cdnFiles fileAssetMap vars w \<and>
   applyAssetUpdate git opts base
     (map (\<lambda>(f, items). (f, filter (\<lambda>i. Some (version i) \<noteq> UpdatedAsset.version assetUpdate) items))
        fileAssetMap) assetUpdate cdnFiles w
     = applyAssetUpdate git opts base fileAssetMap assetUpdate cdnFiles w"
  by (simp add: staleItems_def applyAssetUpdate_def andThen_def updateFiles_current_removed)

text \<open>
  C6 fails on the code. The filter keeps the item at the target version out of the
  candidates, but a replacement is made at the first place in the text where the stale
  item's URL, and then its integrity string, stands. Here the script at 2.0.0 comes
  first and carries the same integrity string as the stale script at 1.0.0: the only
  candidate is the item at 1.0.0, and the integrity attribute that is rewritten is that
  of the script at 2.0.0, while the updated script keeps the old one; the file loop
  and \<^verbatim>\<open>applyAssetUpdate\<close> as a whole both leave the file so.
\<close>

theorem C6_current_occurrence_rewritten:
  "version (sharedItems ! 0) = ''2.0.0'' \<and>
   UpdatedAsset.version foo200 = Some ''2.0.0'' \<and>
   staleItems foo200 sharedItems = [cdnjsItem ''foo'' ''1.0.0'' (Some ''sha256-AAA'')] \<and>
   files sharedWorld ''index.html'' =
     Some (''<script src=\"https://cdnjs.cloudflare.com/ajax/libs/foo/2.0.0/foo.min.js\" integrity=\"sha256-AAA\"></script>'' @
           ''<script src=\"https://cdnjs.cloudflare.com/ajax/libs/foo/1.0.0/foo.min.js\" integrity=\"sha256-AAA\"></script>'') \<and>
   (case updateFiles foo200 foo512Files [(''index.html'', sharedItems)] (0, ''0.0.0'') sharedWorld of
      (r, w) \<Rightarrow>
        r = Returned (1, ''1.0.0'') \<and>
        files w ''index.html'' =
          Some (''<script src=\"https://cdnjs.cloudflare.com/ajax/libs/foo/2.0.0/foo.min.js\" integrity=\"sha512-BBB\"></script>'' @
                ''<script src=\"https://cdnjs.cloudflare.com/ajax/libs/foo/2.0.0/foo.min.js\" integrity=\"sha256-AAA\"></script>'')) \<and>
   (case applyAssetUpdate quietGit exampleOptions ''main'' [(''index.html'', sharedItems)] foo200
           foo512Files sharedWorld of
      (r, w) \<Rightarrow>
        r = Returned (Some ''update-static-assets/foo/2.0.0'') \<and>
        files w ''index.html'' =
          Some (''<script src=\"https://cdnjs.cloudflare.com/ajax/libs/foo/2.0.0/foo.min.js\" integrity=\"sha512-BBB\"></script>'' @
                ''<script src=\"https://cdnjs.cloudflare.com/ajax/libs/foo/2.0.0/foo.min.js\" integrity=\"sha256-AAA\"></script>''))"
  by code_simp


subsection \<open>Sequencing and the call logs\<close>

lemma andThen_Returned:
  "andThen m k w = (Returned y, w') \<longleftrightarrow> (\<exists>x w1. m w = (Returned x, w1) \<and> k x w1 = (Returned y, w'))"
proof (cases "m w")
  case (Pair r w1)
  then show ?thesis by (cases r) (simp_all add: andThen_def)
qed

lemma andThen_step: "m w = (Returned x, w1) \<Longrightarrow> andThen m k w = k x w1"
  by (simp add: andThen_def)



lemma execGit_logs:
  "gitCalls (snd (execGit git args ignoreErrors w)) = gitCalls w @ [args] \<and>
   apiCalls (snd (execGit git args ignoreErrors w)) = apiCalls w"
proof (cases "git args w")
  case (Pair r fs)
  then show ?thesis by (cases r) (simp_all add: execGit_def Let_def)
qed

lemma execGit_Returned:
  "execGit git args ignoreErrors w = (Returned out, w') \<Longrightarrow>
     gitCalls w' = gitCalls w @ [args] \<and> apiCalls w' = apiCalls w"
  using execGit_logs [of git args ignoreErrors w] by simp


lemma execGit_apiCalls: "apiCalls (snd (execGit git args ignoreErrors w)) = apiCalls w"
  by (simp add: execGit_logs)







lemma updateFiles_count:
  "updateFiles u cf fam (n, lowest) w = (Returned (n', lowest'), w') \<Longrightarrow>
     n \<le> n' \<and> (n' = n \<longrightarrow> w' = w)"
proof (induction fam arbitrary: n lowest w)
  case Nil
  then show ?case by (simp add: updateFiles_Nil)
next
  case (Cons x xs)
  obtain f items where x: "x = (f, items)" by (cases x)
  show ?case
  proof (cases "files w f")
    case None
    with Cons.prems show ?thesis unfolding x by (simp add: updateFiles_unreadable)
  next
    case (Some content)
    obtain content1 dirty lowest1 where
      r: "foldl (replaceAsset cf) (content, False, lowest) (staleItems u items) = (content1, dirty, lowest1)"
      by (metis prod_cases3)
    show ?thesis
    proof (cases dirty)
      case True
      with Cons.prems have "updateFiles u cf xs (n + 1, lowest1) (w\<lparr>files := (files w)(f \<mapsto> content1)\<rparr>)
                              = (Returned (n', lowest'), w')"
        unfolding x updateFiles_Cons [OF Some r] by simp
      from Cons.IH [OF this] show ?thesis by simp
    next
      case False
      with Cons.prems have "updateFiles u cf xs (n, lowest1) w = (Returned (n', lowest'), w')"
        unfolding x updateFiles_Cons [OF Some r] by simp
      from Cons.IH [OF this] show ?thesis .
    qed
  qed
qed

lemma selectBaseBranch_logs:
  "selectBaseBranch git baseBranch w = (Returned base', w0) \<Longrightarrow>
     apiCalls w0 = apiCalls w \<and>
     gitCalls w0 = gitCalls w @
       [if baseBranch \<noteq> [] then [''checkout'', baseBranch] else [''rev-parse'', ''--abbrev-ref'', ''HEAD'']]"
  by (auto simp: selectBaseBranch_def getCurrentBranch_def andThen_Returned result_def
           dest: execGit_Returned split: if_splits)

text \<open>
  C7: when the file loop rewrites no file, \<^verbatim>\<open>applyAssetUpdate\<close> returns null and leaves the
  world as it was: no file is written and \<^verbatim>\<open>git\<close> is not invoked. The caller then records
  no update and calls the pull-request service not at all; the one invocation of \<^verbatim>\<open>git\<close>
  in its step for the asset is its own selection of the base branch, made before
  \<^verbatim>\<open>applyAssetUpdate\<close>. The step returns normally.
\<close>

theorem C7_no_file_modified_no_branch:
  "(fst (updateFiles assetUpdate cdnFiles fileAssetMap (0, ''0.0.0'') w) = Returned (0, lowest)
      \<longrightarrow> applyAssetUpdate git opts base fileAssetMap assetUpdate cdnFiles w = (Returned None, w)) \<and>
   (getClient (cdn asset) = Some client \<and>
    0 < length (getFiles client (name asset) (assetLatestVersions (getKey asset))) \<and>
    selectBaseBranch git baseBranch w = (Returned base', w0) \<and>
    fst (updateFiles
           \<lparr>cdn = cdn asset, name = name asset,
            UpdatedAsset.version = assetLatestVersions (getKey asset)\<rparr>
           (getFiles client (name asset) (assetLatestVersions (getKey asset)))
           fileAssetMap (0, ''0.0.0'') w0) = Returned (0, lowest)
      \<longrightarrow> updateAsset getFiles git api opts fileAssetMap assetLatestVersions (baseBranch, updates) asset w
            = (Returned (base', updates), w0) \<and>
          apiCalls w0 = apiCalls w \<and>
          gitCalls w0 = gitCalls w @
            [if baseBranch \<noteq> [] then [''checkout'', baseBranch]
             else [''rev-parse'', ''--abbrev-ref'', ''HEAD'']])"
proof (intro conjI impI)
  have null: "applyAssetUpdate git opts base fileAssetMap u cf v = (Returned None, v)"
    if h: "fst (updateFiles u cf fileAssetMap (0, ''0.0.0'') v) = Returned (0, l)"
    for u cf v l base
  proof -
    obtain v' where r: "updateFiles u cf fileAssetMap (0, ''0.0.0'') v = (Returned (0, l), v')"
      using h by (cases "updateFiles u cf fileAssetMap (0, ''0.0.0'') v") simp
    from updateFiles_count [OF r] have "v' = v" by simp
    with r show ?thesis
      by (simp add: applyAssetUpdate_def andThen_def result_def)
  qed
  {
    assume "fst (updateFiles assetUpdate cdnFiles fileAssetMap (0, ''0.0.0'') w) = Returned (0, lowest)"
    then show "applyAssetUpdate git opts base fileAssetMap assetUpdate cdnFiles w = (Returned None, w)"
      by (rule null)
  }
  assume a: "getClient (cdn asset) = Some client \<and>
    0 < length (getFiles client (name asset) (assetLatestVersions (getKey asset))) \<and>
    selectBaseBranch git baseBranch w = (Returned base', w0) \<and>
    fst (updateFiles
           \<lparr>cdn = cdn asset, name = name asset,
            UpdatedAsset.version = assetLatestVersions (getKey asset)\<rparr>
           (getFiles client (name asset) (assetLatestVersions (getKey asset)))
           fileAssetMap (0, ''0.0.0'') w0) = Returned (0, lowest)"
  from a null have n: "applyAssetUpdate git opts base' fileAssetMap
           \<lparr>cdn = cdn asset, name = name asset,
            UpdatedAsset.version = assetLatestVersions (getKey asset)\<rparr>
           (getFiles client (name asset) (assetLatestVersions (getKey asset))) w0 = (Returned None, w0)"
    by blast
  from a n show "updateAsset getFiles git api opts fileAssetMap assetLatestVersions (baseBranch, updates) asset w
            = (Returned (base', updates), w0)"
    by (simp add: updateAsset_def Let_def andThen_def result_def)
  from a selectBaseBranch_logs [of git baseBranch w base' w0]
  show "apiCalls w0 = apiCalls w" by blast
  from a selectBaseBranch_logs [of git baseBranch w base' w0]
  show "gitCalls w0 = gitCalls w @
            [if baseBranch \<noteq> [] then [''checkout'', baseBranch]
             else [''rev-parse'', ''--abbrev-ref'', ''HEAD'']]" by blast
qed

theorem C7_no_file_modified_no_branch_witness:
  "fst (updateFiles foo200 fooRenamedFiles indexMap (0, ''0.0.0'') exampleWorld) = Returned (0, ''0.0.0'') \<and>
   applyAssetUpdate quietGit exampleOptions ''main'' indexMap foo200 fooRenamedFiles exampleWorld
     = (Returned None, exampleWorld) \<and>
   selectBaseBranch quietGit [] exampleWorld
     = (Returned [], exampleWorld\<lparr>gitCalls := [[''rev-parse'', ''--abbrev-ref'', ''HEAD'']]\<rparr>) \<and>
   updateAsset fooRenamedGetFiles quietGit oneApi exampleOptions indexMap fooLatestMap ([], [])
       \<lparr>cdn = cdnjs, name = ''foo''\<rparr> exampleWorld
     = (Returned ([], []), exampleWorld\<lparr>gitCalls := [[''rev-parse'', ''--abbrev-ref'', ''HEAD'']]\<rparr>)"
proof -
  let ?w0 = "exampleWorld\<lparr>gitCalls := [[''rev-parse'', ''--abbrev-ref'', ''HEAD'']]\<rparr>"
  let ?asset = "\<lparr>cdn = cdnjs, name = ''foo''\<rparr>"
  have h1: "fst (updateFiles foo200 fooRenamedFiles indexMap (0, ''0.0.0'') exampleWorld)
              = Returned (0, ''0.0.0'')"
    by code_simp
  have c: "getClient (cdn ?asset) = Some CdnjsClient"
    by simp
  have k: "fooLatestMap (getKey ?asset) = Some ''2.0.0''"
    by (simp add: fooLatestMap_def getKey_def)
  have l: "0 < length (fooRenamedGetFiles CdnjsClient (name ?asset) (fooLatestMap (getKey ?asset)))"
    by (simp add: fooRenamedGetFiles_def fooRenamedFiles_def)
  have b: "selectBaseBranch quietGit [] exampleWorld = (Returned [], ?w0)"
    by (simp add: selectBaseBranch_def getCurrentBranch_def execGit_def quietGit_def trimEnd_def
          exampleWorld_def)
  have "fst (updateFiles foo200 fooRenamedFiles indexMap (0, ''0.0.0'') ?w0) = Returned (0, ''0.0.0'')"
    by code_simp
  then have h2: "fst (updateFiles
           \<lparr>cdn = cdn ?asset, name = name ?asset, UpdatedAsset.version = fooLatestMap (getKey ?asset)\<rparr>
           (fooRenamedGetFiles CdnjsClient (name ?asset) (fooLatestMap (getKey ?asset)))
           indexMap (0, ''0.0.0'') ?w0) = Returned (0, ''0.0.0'')"
    by (simp add: k fooRenamedGetFiles_def foo200_def)
  from C7_no_file_modified_no_branch
         [of foo200 fooRenamedFiles indexMap exampleWorld "''0.0.0''" quietGit exampleOptions "''main''"
             ?asset CdnjsClient fooRenamedGetFiles fooLatestMap "[]" "[]" ?w0 oneApi "[]"]
       h1 c l b h2
  show ?thesis by blast
qed

subsection \<open>Dry run\<close>





lemma getOctokit_world: "snd (getOctokit token w) = w"
  by (simp add: getOctokit_def)











subsection \<open>The end-to-end example\<close>

text \<open>
  The run of the specification's example: the file is rewritten to version 2.0.0 and the
  new integrity, one pull request titled "Update foo to 2.0.0" is asked for, and the
  branch is pushed. In dry-run mode the file is rewritten and committed the same, the
  service is not called and nothing is pushed.
\<close>

lemma end_to_end_run:
  "(case tryUpdateAssets [''index.html''] indexFindAssets fooLatest fooGetFiles mainGit oneApi
           exampleOptions exampleWorld of
      (r, w) \<Rightarrow>
        r = Returned [\<lparr>cdn = cdnjs, name = ''foo'', pullRequestNumber = 1,
                       pullRequestUrl = ''https://github.com/o/r/pull/1'',
                       AssetUpdate.version = Some ''2.0.0''\<rparr>] \<and>
        files w ''index.html''
          = Some ''<script src=\"https://cdnjs.cloudflare.com/ajax/libs/foo/2.0.0/foo.min.js\" integrity=\"sha256-NEW\"></script>'' \<and>
        map (\<lambda>call. case call of
                      PullsCreate owner repo' title head base body m d \<Rightarrow> (title, head, base)
                    | AddLabels owner repo' n ls \<Rightarrow> ([], [], []))
          (apiCalls w)
          = [(''Update foo to 2.0.0'', ''update-static-assets/foo/2.0.0'', ''main'')] \<and>
        pushes w = [[''push'', ''-u'', ''origin'', ''update-static-assets/foo/2.0.0'']])"
  by code_simp

lemma end_to_end_dry_run:
  "(case tryUpdateAssets [''index.html''] indexFindAssets fooLatest fooGetFiles mainGit oneApi
           dryOptions exampleWorld of
      (r, w) \<Rightarrow>
        r = Returned [\<lparr>cdn = cdnjs, name = ''foo'', pullRequestNumber = 0, pullRequestUrl = [],
                       AssetUpdate.version = Some ''2.0.0''\<rparr>] \<and>
        files w ''index.html''
          = Some ''<script src=\"https://cdnjs.cloudflare.com/ajax/libs/foo/2.0.0/foo.min.js\" integrity=\"sha256-NEW\"></script>'' \<and>
        apiCalls w = [] \<and>
        pushes w = [] \<and>
        map (take 2) (gitCalls w)
          = [[''rev-parse'', ''--abbrev-ref''], [''remote'', ''set-url''], [''fetch'', ''origin''],
             [''rev-parse'', ''--verify''], [''checkout'', ''-b''], [''add'', ''.''], [''commit'', ''-m''],
             [''log'', ''--format='' @ [CHR 0x27] @ ''%H'' @ [CHR 0x27]]])"
  by code_simp

end
